theory Spec2Isabelle
  imports Complex_Main "HOL-Library.Word" "HOL-Library.Log_Nat"
begin

unbundle bit_operations_syntax

section \<open>Data model of game-server/character.cpp\<close>

text \<open>
  Objects outside the character (trade and shop handlers, script functions) are identified
  by an address. A C++ pointer is an \<open>address option\<close>: \<open>None\<close> is \<open>nullptr\<close>.
\<close>

type_synonym address = nat

text \<open>Attribute ids travel as \<open>int\<close>, \<open>unsigned\<close> and \<open>size_t\<close>; the 32-bit pattern is kept.\<close>

type_synonym attr_id = "32 word"

datatype TransactionType = TRANS_NONE | TRANS_TRADE | TRANS_BUYSELL

text \<open>
  \<open>mTransactionHandler\<close> is a \<open>void *\<close>. The model keeps, with the address, the class of
  the object it was taken from, so that the casts of the source can be followed.
\<close>

datatype handler_ref = TradeRef address | BuySellRef address

fun handler_address :: "handler_ref \<Rightarrow> address" where
  "handler_address (TradeRef a) = a"
| "handler_address (BuySellRef a) = a"

text \<open>
  The enumeration of action states is declared outside the sources at hand; the code
  names \<open>STAND\<close> and \<open>DEAD\<close> only.
\<close>

datatype BeingAction = STAND | DEAD | OtherAction nat

datatype AttribmodResponseCode =
  ATTRIBMOD_OK | ATTRIBMOD_INVALID_ATTRIBUTE | ATTRIBMOD_NO_POINTS_LEFT | ATTRIBMOD_DENIED

section \<open>The arithmetic of \<open>double\<close>\<close>

text \<open>
  Attribute values are C++ \<open>double\<close>s: IEEE 754 binary64 values, with 53 significant
  bits, exponents from \<open>-1074\<close> (the smallest subnormal is \<open>2 ^ -1074\<close>) up to the largest
  finite value \<open>(2 ^ 53 - 1) * 2 ^ 971\<close>, two infinities and NaN. A finite value is kept
  as the real number it denotes, so the two zeros are one value (they compare equal in
  C++ as well).
\<close>

datatype double = NaN | PlusInfinity | MinusInfinity | Finite real

text \<open>Rounding to the nearest integer, a tie going to the even one.\<close>

definition round_half_even :: "real \<Rightarrow> int" where
  "round_half_even q =
     (let f = \<lfloor>q\<rfloor>; d = q - of_int f
      in if d < 1 / 2 then f
         else if 1 / 2 < d then f + 1
         else if even f then f else f + 1)"

text \<open>
  The result of an operation whose exact value is \<open>x\<close>, in the default rounding mode
  (to nearest, ties to even). \<open>X\<close> is the magnitude in units of \<open>2 ^ -1074\<close>;
  \<open>floorlog 2\<close> is the number of binary digits of its integer part; a magnitude of more
  than 53 digits is rounded to a multiple of \<open>2 ^ s\<close> units, where \<open>s\<close> is the number of
  digits beyond 53. A rounded magnitude of \<open>2 ^ 2098\<close> units, that is \<open>2 ^ 1024\<close>, or
  more overflows to an infinity.
\<close>

definition round_double :: "real \<Rightarrow> double" where
  "round_double x =
     (let X = \<bar>x\<bar> * 2 ^ 1074;
          s = floorlog 2 (nat \<lfloor>X\<rfloor>) - 53;
          k = round_half_even (X / 2 ^ s) * 2 ^ s
      in if 2 ^ 2098 \<le> k then (if x < 0 then MinusInfinity else PlusInfinity)
         else Finite (sgn x * of_int k / 2 ^ 1074))"

fun double_add :: "double \<Rightarrow> double \<Rightarrow> double" where
  "double_add NaN _ = NaN"
| "double_add _ NaN = NaN"
| "double_add PlusInfinity MinusInfinity = NaN"
| "double_add MinusInfinity PlusInfinity = NaN"
| "double_add PlusInfinity _ = PlusInfinity"
| "double_add _ PlusInfinity = PlusInfinity"
| "double_add MinusInfinity _ = MinusInfinity"
| "double_add _ MinusInfinity = MinusInfinity"
| "double_add (Finite a) (Finite b) = round_double (a + b)"

fun double_neg :: "double \<Rightarrow> double" where
  "double_neg NaN = NaN"
| "double_neg PlusInfinity = MinusInfinity"
| "double_neg MinusInfinity = PlusInfinity"
| "double_neg (Finite a) = Finite (- a)"

fun double_mul :: "double \<Rightarrow> double \<Rightarrow> double" where
  "double_mul NaN _ = NaN"
| "double_mul _ NaN = NaN"
| "double_mul PlusInfinity PlusInfinity = PlusInfinity"
| "double_mul PlusInfinity MinusInfinity = MinusInfinity"
| "double_mul MinusInfinity PlusInfinity = MinusInfinity"
| "double_mul MinusInfinity MinusInfinity = PlusInfinity"
| "double_mul PlusInfinity (Finite b) =
     (if b = 0 then NaN else if 0 < b then PlusInfinity else MinusInfinity)"
| "double_mul MinusInfinity (Finite b) =
     (if b = 0 then NaN else if 0 < b then MinusInfinity else PlusInfinity)"
| "double_mul (Finite a) PlusInfinity =
     (if a = 0 then NaN else if 0 < a then PlusInfinity else MinusInfinity)"
| "double_mul (Finite a) MinusInfinity =
     (if a = 0 then NaN else if 0 < a then MinusInfinity else PlusInfinity)"
| "double_mul (Finite a) (Finite b) = round_double (a * b)"

text \<open>Comparisons: every comparison with NaN is false.\<close>

fun double_le :: "double \<Rightarrow> double \<Rightarrow> bool" where
  "double_le NaN _ = False"
| "double_le _ NaN = False"
| "double_le MinusInfinity _ = True"
| "double_le _ PlusInfinity = True"
| "double_le PlusInfinity _ = False"
| "double_le _ MinusInfinity = False"
| "double_le (Finite a) (Finite b) = (a \<le> b)"

fun double_less :: "double \<Rightarrow> double \<Rightarrow> bool" where
  "double_less NaN _ = False"
| "double_less _ NaN = False"
| "double_less PlusInfinity _ = False"
| "double_less _ MinusInfinity = False"
| "double_less MinusInfinity _ = True"
| "double_less _ PlusInfinity = True"
| "double_less (Finite a) (Finite b) = (a < b)"

text \<open>
  The operators of the source on \<open>double\<close>: \<open>+\<close>, \<open>-\<close>, \<open>*\<close>, \<open>\<le>\<close>, \<open><\<close>, and the
  constant \<open>1\<close> to which the \<open>int\<close> literal \<open>1\<close> is converted.
\<close>

instantiation double :: "{one, plus, minus, times, ord}"
begin

definition one_double :: double where
  "one_double = Finite 1"

definition plus_double :: "double \<Rightarrow> double \<Rightarrow> double" where
  "plus_double x y = double_add x y"

definition minus_double :: "double \<Rightarrow> double \<Rightarrow> double" where
  "minus_double x y = double_add x (double_neg y)"

definition times_double :: "double \<Rightarrow> double \<Rightarrow> double" where
  "times_double x y = double_mul x y"

definition less_eq_double :: "double \<Rightarrow> double \<Rightarrow> bool" where
  "less_eq_double x y = double_le x y"

definition less_double :: "double \<Rightarrow> double \<Rightarrow> bool" where
  "less_double x y = double_less x y"

instance ..

end

text \<open>
  The conversion of a \<open>double\<close> to \<open>int\<close> drops the fraction. Where the result does not
  fit a 32-bit \<open>int\<close>, and for an infinity or NaN, C++ leaves the behaviour undefined:
  the model gives \<open>None\<close> there.
\<close>

definition double_to_int :: "double \<Rightarrow> int option" where
  "double_to_int d =
     (case d of
        Finite x \<Rightarrow>
          (let t = (if 0 \<le> x then \<lfloor>x\<rfloor> else \<lceil>x\<rceil>)
           in if - (2 ^ 31) \<le> t \<and> t < 2 ^ 31 then Some t else None)
      | _ \<Rightarrow> None)"

section \<open>State of a character\<close>

text \<open>
  An attribute holds its base value and its modifier stack. The stack is kept as the
  function it computes on the base.
\<close>

record Attribute =
  base :: double
  modifiers :: "double \<Rightarrow> double"

text \<open>
  A \<open>MessageOut\<close> is the sequence of write calls made on it after the opcode, each with
  the \<open>int\<close> it is passed; \<open>None\<close> stands for the outcome of an undefined conversion.
\<close>

datatype msg_field = WriteInt16 int | WriteInt32 "int option"

text \<open>
  Calls that leave the character: to the handlers, the log, the scripts, the game state,
  the being, the account server and the network.
\<close>

datatype event =
    Trade_cancel address
  | BuySell_cancel address
  | LOG_WARN string
  | Script_execute address
  | GameState_enqueueWarp int int int
  | Being_updateDerivedAttributes attr_id
  | AccountHandler_updateAttributes int attr_id double double
  | GameHandler_sendTo "msg_field list"

text \<open>
  What the callee of such a call finds when it looks back at the character: the
  transaction tag, the handler field and the action state at the moment of the call.
\<close>

record view =
  seen_transaction :: TransactionType
  seen_handler :: "handler_ref option"
  seen_action :: BeingAction

text \<open>
  The fields of \<open>CharacterComponent\<close> that the functions below read or write, the state of
  the entity's \<open>BeingComponent\<close> (\<open>mAction\<close>, \<open>mAttributes\<close>), and the outgoing calls in
  the order in which they were made, each with the view the callee had.
  \<open>mModifiedAttributes\<close> is a \<open>std::set<size_t>\<close>, kept as the list of its elements in
  iteration order.
\<close>

record character =
  mConnected :: bool
  mTransactionHandler :: "handler_ref option"
  mDatabaseID :: int
  mSendAttributePointsStatus :: bool
  mAttributePoints :: "32 word"
  mCorrectionPoints :: "32 word"
  mTransaction :: TransactionType
  mModifiedAttributes :: "attr_id list"
  mAction :: BeingAction
  mAttributes :: "attr_id \<Rightarrow> Attribute"
  calls :: "(event \<times> view) list"

text \<open>
  The constructor (lines 65 to 119). Its member initialisers set \<open>mConnected\<close>,
  \<open>mTransactionHandler\<close> and \<open>mTransaction\<close>, and its body writes none of the three. The
  body reads the database id and the persistent data from the message, creates and
  recalculates the attributes and marks every attribute dirty (line 112), through the
  deserializer, the attribute manager and the being, which are outside the sources: what
  it leaves in the other fields is taken as given, in \<open>loaded\<close>.
\<close>

definition constructed :: "character \<Rightarrow> character" where
  "constructed loaded =
     loaded\<lparr> mConnected := True,
             mTransactionHandler := None,
             mTransaction := TRANS_NONE \<rparr>"

definition view_of :: "character \<Rightarrow> view" where
  "view_of c =
     \<lparr> seen_transaction = mTransaction c,
       seen_handler = mTransactionHandler c,
       seen_action = mAction c \<rparr>"

definition emit :: "event \<Rightarrow> character \<Rightarrow> character" where
  "emit e c = c\<lparr>calls := calls c @ [(e, view_of c)]\<rparr>"

section \<open>Transaction guard\<close>

datatype failure = AssertionFailed | NullDereference

text \<open>
  Lines 224 to 239. The tag is reset before the handler is called. The call goes through
  the stored pointer, so a null pointer there is a fault. The pointer itself is not
  written.
\<close>

definition cancelTransaction :: "character \<Rightarrow> failure + character" where
  "cancelTransaction c =
     (let t = mTransaction c;
          c1 = c\<lparr>mTransaction := TRANS_NONE\<rparr>
      in case t of
           TRANS_TRADE \<Rightarrow>
             (case mTransactionHandler c1 of
                Some h \<Rightarrow> Inr (emit (Trade_cancel (handler_address h)) c1)
              | None \<Rightarrow> Inl NullDereference)
         | TRANS_BUYSELL \<Rightarrow>
             (case mTransactionHandler c1 of
                Some h \<Rightarrow> Inr (emit (BuySell_cancel (handler_address h)) c1)
              | None \<Rightarrow> Inl NullDereference)
         | TRANS_NONE \<Rightarrow> Inr c1)"

definition getTrading :: "character \<Rightarrow> address option" where
  "getTrading c =
     (if mTransaction c = TRANS_TRADE
      then map_option handler_address (mTransactionHandler c) else None)"

definition getBuySell :: "character \<Rightarrow> address option" where
  "getBuySell c =
     (if mTransaction c = TRANS_BUYSELL
      then map_option handler_address (mTransactionHandler c) else None)"

text \<open>Lines 253 to 281. A failed \<open>assert\<close> ends the call with \<open>AssertionFailed\<close>.\<close>

definition setTrading :: "address option \<Rightarrow> character \<Rightarrow> failure + character" where
  "setTrading t c =
     (case t of
        Some a \<Rightarrow>
          (case cancelTransaction c of
             Inl e \<Rightarrow> Inl e
           | Inr c1 \<Rightarrow>
               Inr (c1\<lparr>mTransactionHandler := Some (TradeRef a),
                        mTransaction := TRANS_TRADE\<rparr>))
      | None \<Rightarrow>
          if mTransaction c = TRANS_NONE \<or> mTransaction c = TRANS_TRADE
          then Inr (c\<lparr>mTransaction := TRANS_NONE\<rparr>)
          else Inl AssertionFailed)"

definition setBuySell :: "address option \<Rightarrow> character \<Rightarrow> failure + character" where
  "setBuySell t c =
     (case t of
        Some a \<Rightarrow>
          (case cancelTransaction c of
             Inl e \<Rightarrow> Inl e
           | Inr c1 \<Rightarrow>
               Inr (c1\<lparr>mTransactionHandler := Some (BuySellRef a),
                        mTransaction := TRANS_BUYSELL\<rparr>))
      | None \<Rightarrow>
          if mTransaction c = TRANS_NONE \<or> mTransaction c = TRANS_BUYSELL
          then Inr (c\<lparr>mTransaction := TRANS_NONE\<rparr>)
          else Inl AssertionFailed)"

text \<open>Sequences of calls on the transaction guard, stopped by the first failure.\<close>

datatype txn_call =
  Call_setTrading "address option" | Call_setBuySell "address option" | Call_cancelTransaction

fun run_call :: "txn_call \<Rightarrow> character \<Rightarrow> failure + character" where
  "run_call (Call_setTrading t) c = setTrading t c"
| "run_call (Call_setBuySell t) c = setBuySell t c"
| "run_call Call_cancelTransaction c = cancelTransaction c"

fun run_calls :: "txn_call list \<Rightarrow> character \<Rightarrow> failure + character" where
  "run_calls [] c = Inr c"
| "run_calls (x # xs) c =
     (case run_call x c of Inl e \<Rightarrow> Inl e | Inr c1 \<Rightarrow> run_calls xs c1)"

text \<open>
  The consistency of tag and handler field as the specification words it: no handler
  under \<open>TRANS_NONE\<close>, a handler of the matching class under the other two tags.
\<close>

definition tag_matches_field :: "character \<Rightarrow> bool" where
  "tag_matches_field c =
     (case mTransaction c of
        TRANS_NONE \<Rightarrow> mTransactionHandler c = None
      | TRANS_TRADE \<Rightarrow> (\<exists>a. mTransactionHandler c = Some (TradeRef a))
      | TRANS_BUYSELL \<Rightarrow> (\<exists>a. mTransactionHandler c = Some (BuySellRef a)))"

text \<open>
  The consistency the code keeps: under \<open>TRANS_NONE\<close> both getters answer null, whatever
  the field holds; under the other two tags the field holds a handler of the matching class.
\<close>

definition tag_matches_getters :: "character \<Rightarrow> bool" where
  "tag_matches_getters c =
     (case mTransaction c of
        TRANS_NONE \<Rightarrow> getTrading c = None \<and> getBuySell c = None
      | TRANS_TRADE \<Rightarrow> (\<exists>a. mTransactionHandler c = Some (TradeRef a))
      | TRANS_BUYSELL \<Rightarrow> (\<exists>a. mTransactionHandler c = Some (BuySellRef a)))"

section \<open>Collaborators of the character\<close>

text \<open>
  What the functions of character.cpp take from outside: the attribute manager's test, two
  attribute ids, the configuration, and the static script reference
  \<open>mDeathAcceptedCallback\<close> (\<open>None\<close> when the reference is not valid).
\<close>

record environment =
  isAttributeDirectlyModifiable :: "attr_id \<Rightarrow> bool"
  ATTR_HP :: attr_id
  ATTR_MAX_HP :: attr_id
  configuration :: "string \<rightharpoonup> int"
  mDeathAcceptedCallback :: "address option"

text \<open>
  Modelled from the spec: \<open>Configuration::getValue\<close> is not in the sources. The
  specification speaks of configuration values with documented defaults: the configured
  value where the key is set, the default passed by the caller otherwise.
\<close>

definition Configuration_getValue :: "(string \<rightharpoonup> int) \<Rightarrow> string \<Rightarrow> int \<Rightarrow> int" where
  "Configuration_getValue cfg key deflt = (case cfg key of None \<Rightarrow> deflt | Some v \<Rightarrow> v)"

text \<open>
  Modelled from the spec: \<open>BeingComponent::getAttributeBase\<close> and
  \<open>BeingComponent::getModifiedAttribute\<close> are not in the sources. The specification calls
  them pure reads of the base value and of the modified value, the base with the
  modifiers applied.
\<close>

definition getAttributeBase :: "character \<Rightarrow> attr_id \<Rightarrow> double" where
  "getAttributeBase c a = base (mAttributes c a)"

definition getModifiedAttribute :: "character \<Rightarrow> attr_id \<Rightarrow> double" where
  "getModifiedAttribute c a = modifiers (mAttributes c a) (base (mAttributes c a))"

text \<open>
  Modelled from the spec: \<open>BeingComponent::getAction\<close> and \<open>BeingComponent::setAction\<close>
  are not in the sources; they read and write the action state of the being.
\<close>

definition getAction :: "character \<Rightarrow> BeingAction" where
  "getAction c = mAction c"

definition setAction :: "BeingAction \<Rightarrow> character \<Rightarrow> character" where
  "setAction a c = c\<lparr>mAction := a\<rparr>"

text \<open>
  Modelled from the spec: \<open>BeingComponent::updateDerivedAttributes\<close> is not in the
  sources. It propagates a change to the attributes that depend on the changed one; the
  call is recorded, the propagation is not modelled.
\<close>

definition updateDerivedAttributes :: "attr_id \<Rightarrow> character \<Rightarrow> character" where
  "updateDerivedAttributes a c = emit (Being_updateDerivedAttributes a) c"

section \<open>Dirty attributes and the status message\<close>

text \<open>\<open>std::set::insert\<close> on the sorted sequence of the elements.\<close>

definition set_insert :: "attr_id \<Rightarrow> attr_id list \<Rightarrow> attr_id list" where
  "set_insert x xs = (if x \<in> set xs then xs else insort x xs)"

text \<open>Lines 311 to 320.\<close>

definition attributeChanged :: "attr_id \<Rightarrow> character \<Rightarrow> character" where
  "attributeChanged attr c =
     (let c1 = emit (AccountHandler_updateAttributes (mDatabaseID c) attr
                       (getAttributeBase c attr) (getModifiedAttribute c attr)) c
      in c1\<lparr>mModifiedAttributes := set_insert attr (mModifiedAttributes c1)\<rparr>)"

text \<open>
  Modelled from the spec: \<open>BeingComponent::setAttribute\<close> is not in the sources. By the
  specification it updates the base and marks the id dirty; the marking is the
  attribute-changed notification, to which the constructor (lines 114 and 115)
  subscribes \<open>attributeChanged\<close>.
\<close>

definition setAttribute :: "attr_id \<Rightarrow> double \<Rightarrow> character \<Rightarrow> character" where
  "setAttribute a v c =
     attributeChanged a
       (c\<lparr>mAttributes := (mAttributes c)(a := (mAttributes c a)\<lparr>base := v\<rparr>)\<rparr>)"

text \<open>
  The loop of \<open>sendStatus\<close> (lines 287 to 294) over the dirty ids in iteration order. The
  \<open>int\<close> literal \<open>256\<close> is converted to \<open>double\<close> for the product, and the product to
  \<open>int\<close> for \<open>writeInt32\<close>.
\<close>

fun attribMsg :: "character \<Rightarrow> attr_id list \<Rightarrow> msg_field list" where
  "attribMsg c [] = []"
| "attribMsg c (attr # rest) =
     WriteInt16 (sint attr)
     # WriteInt32 (double_to_int (getAttributeBase c attr * Finite 256))
     # WriteInt32 (double_to_int (getModifiedAttribute c attr * Finite 256))
     # attribMsg c rest"

text \<open>\<open>MessageOut::getLength\<close>: two bytes of opcode, then the bytes written.\<close>

fun field_length :: "msg_field \<Rightarrow> nat" where
  "field_length (WriteInt16 _) = 2"
| "field_length (WriteInt32 _) = 4"

definition getLength :: "msg_field list \<Rightarrow> nat" where
  "getLength m = 2 + sum_list (map field_length m)"

text \<open>Lines 283 to 297.\<close>

definition sendStatus :: "character \<Rightarrow> character" where
  "sendStatus c =
     (let m = attribMsg c (mModifiedAttributes c);
          c1 = (if getLength m > 2 then emit (GameHandler_sendTo m) c else c)
      in c1\<lparr>mModifiedAttributes := []\<rparr>)"

text \<open>A run of attribute-changed notifications, as one tick delivers them.\<close>

fun attributesChanged :: "attr_id list \<Rightarrow> character \<Rightarrow> character" where
  "attributesChanged [] c = c"
| "attributesChanged (a # as) c = attributesChanged as (attributeChanged a c)"

text \<open>The attribute ids a message lists: the arguments of its \<open>writeInt16\<close> calls.\<close>

fun listed_ids :: "msg_field list \<Rightarrow> int list" where
  "listed_ids [] = []"
| "listed_ids (WriteInt16 i # m) = i # listed_ids m"
| "listed_ids (WriteInt32 _ # m) = listed_ids m"

section \<open>Point economy\<close>

text \<open>
  Modelled from the spec: \<open>setAttributePoints\<close> and \<open>setCorrectionPoints\<close> are defined
  in the header, which is not in the sources. They store the counter and leave a
  points-status message pending.
\<close>

definition setAttributePoints :: "32 word \<Rightarrow> character \<Rightarrow> character" where
  "setAttributePoints points c =
     c\<lparr>mSendAttributePointsStatus := True, mAttributePoints := points\<rparr>"

definition setCorrectionPoints :: "32 word \<Rightarrow> character \<Rightarrow> character" where
  "setCorrectionPoints points c =
     c\<lparr>mSendAttributePointsStatus := True, mCorrectionPoints := points\<rparr>"

text \<open>Lines 345 to 361.\<close>

definition useCharacterPoint ::
  "environment \<Rightarrow> attr_id \<Rightarrow> character \<Rightarrow> AttribmodResponseCode \<times> character" where
  "useCharacterPoint env attribute c =
     (if \<not> isAttributeDirectlyModifiable env attribute then (ATTRIBMOD_INVALID_ATTRIBUTE, c)
      else if mAttributePoints c = 0 then (ATTRIBMOD_NO_POINTS_LEFT, c)
      else
        let c1 = setAttributePoints (mAttributePoints c - 1) c;
            b = getAttributeBase c1 attribute;
            c2 = setAttribute attribute (b + 1) c1;
            c3 = updateDerivedAttributes attribute c2
        in (ATTRIBMOD_OK, c3))"

text \<open>Lines 363 to 381.\<close>

definition useCorrectionPoint ::
  "environment \<Rightarrow> attr_id \<Rightarrow> character \<Rightarrow> AttribmodResponseCode \<times> character" where
  "useCorrectionPoint env attribute c =
     (if \<not> isAttributeDirectlyModifiable env attribute then (ATTRIBMOD_INVALID_ATTRIBUTE, c)
      else if mCorrectionPoints c = 0 then (ATTRIBMOD_NO_POINTS_LEFT, c)
      else if getAttributeBase c attribute \<le> 1 then (ATTRIBMOD_DENIED, c)
      else
        let c1 = setCorrectionPoints (mCorrectionPoints c - 1) c;
            c2 = setAttributePoints (mAttributePoints c1 + 1) c1;
            b = getAttributeBase c2 attribute;
            c3 = setAttribute attribute (b - 1) c2
        in (ATTRIBMOD_OK, c3))"

text \<open>
  The calls a function has made: those recorded after the ones of the state it began in,
  with the views (\<open>calls_seen\<close>) and without (\<open>new_calls\<close>).
\<close>

definition calls_seen :: "character \<Rightarrow> character \<Rightarrow> (event \<times> view) list" where
  "calls_seen c c1 = drop (length (calls c)) (calls c1)"

definition new_calls :: "character \<Rightarrow> character \<Rightarrow> event list" where
  "new_calls c c1 = map fst (calls_seen c c1)"

section \<open>Respawn\<close>

text \<open>Lines 52 to 62. The body of the script is outside the sources: its run is recorded.\<close>

definition executeCallback :: "address option \<Rightarrow> character \<Rightarrow> bool \<times> character" where
  "executeCallback function c =
     (case function of
        None \<Rightarrow> (False, c)
      | Some f \<Rightarrow> (True, emit (Script_execute f) c))"

text \<open>
  Lines 147 to 175. The text of the warning leaves out the character's name. The warp is
  queued with the number of the map and the coordinates of the point.
\<close>

definition respawn :: "environment \<Rightarrow> character \<Rightarrow> character" where
  "respawn env c =
     (if getAction c \<noteq> DEAD
      then emit (LOG_WARN ''tried to respawn without being dead'') c
      else
        let c1 = setAction STAND c;
            (ran, c2) = executeCallback (mDeathAcceptedCallback env) c1
        in if ran then c2
           else
             let maxHp = getModifiedAttribute c2 (ATTR_MAX_HP env);
                 c3 = setAttribute (ATTR_HP env) maxHp c2;
                 spawnMap = Configuration_getValue (configuration env) ''char_respawnMap'' 1;
                 spawnX = Configuration_getValue (configuration env) ''char_respawnX'' 1024;
                 spawnY = Configuration_getValue (configuration env) ''char_respawnY'' 1024
             in emit (GameState_enqueueWarp spawnMap spawnX spawnY) c3)"

section \<open>Permission manager (common/permissionmanager.cpp)\<close>

text \<open>
  A node of the parsed document: its name, its properties with the value \<open>atoi\<close> reads
  from each, its children, and its text content (\<open>None\<close> for a null \<open>content\<close>).
\<close>

datatype xmlNode =
  XmlNode (node_name: string) (node_properties: "(string \<times> int) list")
    (xmlChildrenNode: "xmlNode list") (node_content: "string option")

datatype log_entry =
    CouldNotFind
  | ErrorWhileParsing
  | NotAValidDatabase
  | IllegalClassLevel int
  | UnknownPermission string

text \<open>The static table \<open>permissions\<close> and the warnings and errors logged so far.\<close>

record permission_manager =
  permissions :: "string \<rightharpoonup> 8 word"
  logged :: "log_entry list"

definition log_line :: "log_entry \<Rightarrow> permission_manager \<Rightarrow> permission_manager" where
  "log_line e pm = pm\<lparr>logged := logged pm @ [e]\<rparr>"

text \<open>Lines 32 to 42.\<close>

definition addPermission :: "string \<Rightarrow> 8 word \<Rightarrow> permission_manager \<Rightarrow> permission_manager" where
  "addPermission permission mask8 pm =
     (case permissions pm permission of
        None \<Rightarrow> pm\<lparr>permissions := (permissions pm)(permission \<mapsto> mask8)\<rparr>
      | Some m \<Rightarrow> pm\<lparr>permissions := (permissions pm)(permission \<mapsto> m OR mask8)\<rparr>)"

text \<open>
  Modelled from the spec: \<open>XML::getProperty\<close> is not in the sources. It yields the
  integer value of the named property of the node, and the default where the node has no
  such property.
\<close>

definition XML_getProperty :: "xmlNode \<Rightarrow> string \<Rightarrow> int \<Rightarrow> int" where
  "XML_getProperty node name deflt =
     (case map_of (node_properties node) name of None \<Rightarrow> deflt | Some v \<Rightarrow> v)"

text \<open>
  \<open>perNode->xmlChildrenNode->content\<close>: the content of the first child. A node without
  children has a null \<open>xmlChildrenNode\<close>, and reading through it is a fault.
\<close>

definition first_child_content :: "xmlNode \<Rightarrow> failure + string option" where
  "first_child_content n =
     (case xmlChildrenNode n of
        [] \<Rightarrow> Inl NullDereference
      | ch # _ \<Rightarrow> Inr (node_content ch))"

text \<open>The body of the inner loop (lines 105 to 118).\<close>

definition reload_perNode ::
  "8 word \<Rightarrow> xmlNode \<Rightarrow> permission_manager \<Rightarrow> failure + permission_manager" where
  "reload_perNode classmask perNode pm =
     (if node_name perNode = ''allow'' then
        (case first_child_content perNode of
           Inl e \<Rightarrow> Inl e
         | Inr permission \<Rightarrow>
             (case permission of
                Some p \<Rightarrow> if length p > 0 then Inr (addPermission p classmask pm) else Inr pm
              | None \<Rightarrow> Inr pm))
      else if node_name perNode = ''deny'' then
        (case first_child_content perNode of Inl e \<Rightarrow> Inl e | Inr _ \<Rightarrow> Inr pm)
      else if node_name perNode = ''alias'' then
        (case first_child_content perNode of Inl e \<Rightarrow> Inl e | Inr _ \<Rightarrow> Inr pm)
      else Inr pm)"

fun reload_perNodes ::
  "8 word \<Rightarrow> xmlNode list \<Rightarrow> permission_manager \<Rightarrow> failure + permission_manager" where
  "reload_perNodes classmask [] pm = Inr pm"
| "reload_perNodes classmask (perNode # rest) pm =
     (case reload_perNode classmask perNode pm of
        Inl e \<Rightarrow> Inl e
      | Inr pm1 \<Rightarrow> reload_perNodes classmask rest pm1)"

text \<open>The body of the outer loop (lines 84 to 119), for one child of the root.\<close>

definition reload_node :: "xmlNode \<Rightarrow> permission_manager \<Rightarrow> failure + permission_manager" where
  "reload_node node pm =
     (if node_name node \<noteq> ''class'' then Inr pm
      else
        let level = XML_getProperty node ''level'' 0
        in if level < 1 \<or> level > 8 then Inr (log_line (IllegalClassLevel level) pm)
           else reload_perNodes (push_bit (nat (level - 1)) 1) (xmlChildrenNode node) pm)"

fun reload_nodes :: "xmlNode list \<Rightarrow> permission_manager \<Rightarrow> failure + permission_manager" where
  "reload_nodes [] pm = Inr pm"
| "reload_nodes (node # rest) pm =
     (case reload_node node pm of
        Inl e \<Rightarrow> Inl e
      | Inr pm1 \<Rightarrow> reload_nodes rest pm1)"

text \<open>
  What \<open>reload\<close> gets from the resource manager and the parser: no data, data that does
  not parse, or a document with its root element (\<open>None\<close> for a null root).
\<close>

datatype loaded_file = NoData | NoDocument | Document "xmlNode option"

text \<open>Lines 50 to 129. The \<open>LOG_INFO\<close> lines are left out.\<close>

definition reload :: "loaded_file \<Rightarrow> permission_manager \<Rightarrow> failure + permission_manager" where
  "reload f pm =
     (case f of
        NoData \<Rightarrow> Inr (log_line CouldNotFind pm)
      | NoDocument \<Rightarrow> Inr (log_line ErrorWhileParsing pm)
      | Document rootElement \<Rightarrow>
          (case rootElement of
             None \<Rightarrow> Inr (log_line NotAValidDatabase pm)
           | Some node \<Rightarrow>
               if node_name node \<noteq> ''permissions'' then Inr (log_line NotAValidDatabase pm)
               else reload_nodes (xmlChildrenNode node) pm))"

datatype Result = PMR_ALLOWED | PMR_DENIED | PMR_UNKNOWN

text \<open>
  Lines 132 to 147. \<open>getAccountLevel\<close> is an \<open>int\<close>; the mask is widened to it before
  the bitwise and.
\<close>

definition checkPermission ::
  "32 word \<Rightarrow> string \<Rightarrow> permission_manager \<Rightarrow> Result \<times> permission_manager" where
  "checkPermission accountLevel permission pm =
     (case permissions pm permission of
        None \<Rightarrow> (PMR_UNKNOWN, log_line (UnknownPermission permission) pm)
      | Some m \<Rightarrow>
          if accountLevel AND ucast m \<noteq> 0 then (PMR_ALLOWED, pm) else (PMR_DENIED, pm))"

text \<open>
  The permission names a class declaration allows: the non-empty contents of the first
  children of its \<open>allow\<close> elements, in document order.
\<close>

fun allowed_names :: "xmlNode list \<Rightarrow> string list" where
  "allowed_names [] = []"
| "allowed_names (perNode # rest) =
     (if node_name perNode = ''allow'' then
        (case xmlChildrenNode perNode of
           ch # _ \<Rightarrow>
             (case node_content ch of
                Some p \<Rightarrow> if length p > 0 then p # allowed_names rest else allowed_names rest
              | None \<Rightarrow> allowed_names rest)
         | [] \<Rightarrow> allowed_names rest)
      else allowed_names rest)"

text \<open>A declaration none of whose elements is read through a null child pointer.\<close>

fun readable :: "xmlNode list \<Rightarrow> bool" where
  "readable [] = True"
| "readable (perNode # rest) =
     ((if node_name perNode = ''allow'' \<or> node_name perNode = ''deny''
          \<or> node_name perNode = ''alias''
       then xmlChildrenNode perNode \<noteq> [] else True) \<and> readable rest)"

section \<open>Sample data\<close>

definition sample_attributes :: "attr_id \<Rightarrow> Attribute" where
  "sample_attributes = (\<lambda>_. \<lparr>base = Finite 10, modifiers = (\<lambda>b. b + Finite 5)\<rparr>)"

definition sample_environment :: environment where
  "sample_environment =
     \<lparr> isAttributeDirectlyModifiable = (\<lambda>a. a = 1),
       ATTR_HP = 13,
       ATTR_MAX_HP = 14,
       configuration = Map.empty,
       mDeathAcceptedCallback = None \<rparr>"

definition sample_loaded :: character where
  "sample_loaded =
     \<lparr> mConnected = False,
       mTransactionHandler = None,
       mDatabaseID = 7,
       mSendAttributePointsStatus = False,
       mAttributePoints = 0,
       mCorrectionPoints = 0,
       mTransaction = TRANS_NONE,
       mModifiedAttributes = [2, 13, 14],
       mAction = STAND,
       mAttributes = sample_attributes,
       calls = [] \<rparr>"

definition fresh_character :: character where
  "fresh_character = constructed sample_loaded"

definition trader :: character where
  "trader = fresh_character\<lparr>mTransactionHandler := Some (TradeRef 1), mTransaction := TRANS_TRADE\<rparr>"

definition dead_trader :: character where
  "dead_trader = trader\<lparr>mAction := DEAD\<rparr>"

definition funded_character :: character where
  "funded_character = fresh_character\<lparr>mAttributePoints := 3, mCorrectionPoints := 2\<rparr>"

definition weak_character :: character where
  "weak_character =
     funded_character\<lparr>mAttributes := (\<lambda>_. \<lparr>base = Finite 1, modifiers = (\<lambda>b. b)\<rparr>)\<rparr>"

text \<open>Characters whose attributes have the base \<open>2 ^ 53\<close> and \<open>2 ^ 54\<close>.\<close>

definition big_character :: character where
  "big_character =
     funded_character\<lparr>mAttributes := (\<lambda>_. \<lparr>base = Finite (2 ^ 53), modifiers = (\<lambda>b. b)\<rparr>)\<rparr>"

definition huge_character :: character where
  "huge_character =
     funded_character\<lparr>mAttributes := (\<lambda>_. \<lparr>base = Finite (2 ^ 54), modifiers = (\<lambda>b. b)\<rparr>)\<rparr>"

definition text_node :: "string \<Rightarrow> xmlNode" where
  "text_node s = XmlNode ''text'' [] [] (Some s)"

definition level0_class :: xmlNode where
  "level0_class =
     XmlNode ''class'' [(''level'', 0)] [XmlNode ''allow'' [] [text_node ''kick''] None] None"

definition level9_class :: xmlNode where
  "level9_class =
     XmlNode ''class'' [(''level'', 9)] [XmlNode ''allow'' [] [text_node ''kick''] None] None"

definition level3_class :: xmlNode where
  "level3_class =
     XmlNode ''class'' [(''level'', 3)]
       [XmlNode ''allow'' [] [text_node ''ban''] None,
        XmlNode ''deny'' [] [text_node ''kick''] None] None"

definition sample_document :: loaded_file where
  "sample_document =
     Document (Some (XmlNode ''permissions'' [] [level0_class, level9_class, level3_class] None))"

text \<open>
  A class of level 3 whose first \<open>allow\<close> element is empty, as \<open><allow/>\<close> is parsed, and
  whose second allows \<open>kick\<close>; and a document that declares it.
\<close>

definition childless_allow_class :: xmlNode where
  "childless_allow_class =
     XmlNode ''class'' [(''level'', 3)]
       [XmlNode ''allow'' [] [] None,
        XmlNode ''allow'' [] [text_node ''kick''] None] None"

definition childless_allow_document :: loaded_file where
  "childless_allow_document =
     Document (Some (XmlNode ''permissions'' [] [childless_allow_class] None))"

definition sample_manager :: permission_manager where
  "sample_manager = \<lparr>permissions = [''kick'' \<mapsto> 6], logged = []\<rparr>"

section \<open>Facts about \<open>double\<close>\<close>

lemma round_half_even_int: "round_half_even (of_int n) = n"
  by (simp add: round_half_even_def)

lemma floorlog_floor:
  assumes "2 ^ (b - 1) \<le> X" and "X < 2 ^ b" and "0 < b"
  shows "floorlog 2 (nat \<lfloor>X :: real\<rfloor>) = b"
proof -
  have "(2::int) ^ (b - 1) \<le> \<lfloor>X\<rfloor>"
    using assms(1) by (simp add: le_floor_iff)
  then have lo: "(2::nat) ^ (b - 1) \<le> nat \<lfloor>X\<rfloor>"
    by (simp add: le_nat_iff)
  have "\<lfloor>X\<rfloor> < (2::int) ^ b"
    using assms(2) by (simp add: floor_less_iff)
  then have hi: "nat \<lfloor>X\<rfloor> < (2::nat) ^ b"
    by (simp add: nat_less_iff)
  from hi have "floorlog 2 (nat \<lfloor>X\<rfloor>) \<le> b"
    by (simp add: floorlog_le_iff)
  moreover from lo have "b \<le> floorlog 2 (nat \<lfloor>X\<rfloor>)"
    by (rule floorlog_geI) simp
  ultimately show ?thesis by simp
qed

text \<open>
  A real number \<open>j * 2 ^ p / 2 ^ q\<close> with \<open>\<bar>j\<bar> < 2 ^ 53\<close>, \<open>p \<le> 971\<close> and \<open>q \<le> 1074\<close> is a
  \<open>double\<close> value, and every finite \<open>double\<close> value has this form. Rounding leaves it as
  it is.
\<close>

lemma round_double_exact:
  assumes j: "\<bar>j\<bar> < 2 ^ 53" and p: "p \<le> 971" and q: "q \<le> 1074"
  shows "round_double (of_int j * 2 ^ p / 2 ^ q) = Finite (of_int j * 2 ^ p / 2 ^ q)"
proof (cases "j = 0")
  case True
  then show ?thesis by (simp add: round_double_def round_half_even_def floorlog_def)
next
  case False
  define u where "u = p + (1074 - q)"
  define n where "n = nat \<bar>j\<bar>"
  let ?x = "(of_int j * 2 ^ p / 2 ^ q) :: real"
  have n0: "0 < n" using False by (simp add: n_def)
  have nb: "n < 2 ^ 53" using j by (simp add: n_def nat_less_iff)
  have split: "(2::real) ^ 1074 = 2 ^ q * 2 ^ (1074 - q)"
    using q by (simp flip: power_add)
  have X: "\<bar>?x\<bar> * 2 ^ 1074 = real n * 2 ^ u"
  proof -
    have "\<bar>?x\<bar> * 2 ^ 1074 = \<bar>real_of_int j\<bar> * 2 ^ p / 2 ^ q * (2 ^ q * 2 ^ (1074 - q))"
      by (simp only: split) (simp add: abs_mult abs_divide del: power_numeral)
    also have "\<dots> = \<bar>real_of_int j\<bar> * (2 ^ p * 2 ^ (1074 - q))"
      by (simp del: power_numeral)
    also have "\<dots> = real n * 2 ^ u"
      by (simp add: u_def power_add n_def del: power_numeral)
    finally show ?thesis .
  qed
  have fl: "nat \<lfloor>real n * 2 ^ u\<rfloor> = n * 2 ^ u"
  proof -
    have "real n * 2 ^ u = of_int (int (n * 2 ^ u))" by simp
    then have "\<lfloor>real n * 2 ^ u\<rfloor> = int (n * 2 ^ u)"
      by (metis floor_of_int)
    then show ?thesis by (simp only: nat_int)
  qed
  define s where "s = floorlog 2 (n * 2 ^ u) - 53"
  have bits: "floorlog 2 (n * 2 ^ u) = floorlog 2 n + u"
    using n0 by simp
  have "floorlog 2 n \<le> 53" using nb by (simp add: floorlog_le_iff)
  then have su: "s \<le> u" by (simp add: s_def bits)
  have quot: "real n * 2 ^ u / 2 ^ s = of_int (int (n * 2 ^ (u - s)))"
  proof -
    have "(2::real) ^ u = 2 ^ (u - s) * 2 ^ s"
      using su by (simp flip: power_add)
    then show ?thesis by simp
  qed
  have k: "round_half_even (real n * 2 ^ u / 2 ^ s) * 2 ^ s = int (n * 2 ^ u)"
  proof -
    have "int (n * 2 ^ (u - s)) * 2 ^ s = int (n * (2 ^ (u - s) * 2 ^ s))"
      by simp
    also have "\<dots> = int (n * 2 ^ u)"
      using su by (simp flip: power_add)
    finally show ?thesis
      by (simp only: quot round_half_even_int)
  qed
  have ub: "u \<le> 2045" using p by (simp add: u_def)
  have small: "\<not> (2::int) ^ 2098 \<le> int (n * 2 ^ u)"
  proof -
    have "(2::nat) ^ u \<le> 2 ^ 2045"
      using ub by (intro power_increasing) simp_all
    with nb have "n * 2 ^ u < 2 ^ 53 * 2 ^ 2045"
      by (intro mult_less_le_imp_less) (simp_all del: power_numeral)
    also have "\<dots> = (2::nat) ^ 2098" by (simp flip: power_add)
    finally have "int (n * 2 ^ u) < 2 ^ 2098"
      by (metis of_nat_less_iff of_nat_numeral of_nat_power)
    then show ?thesis by simp
  qed
  have same: "sgn ?x * of_int (int (n * 2 ^ u)) / 2 ^ 1074 = ?x"
  proof -
    have "sgn ?x * (\<bar>?x\<bar> * 2 ^ 1074) / 2 ^ 1074 = ?x"
      by (simp add: mult.assoc [symmetric] sgn_mult_abs)
    then show ?thesis by (simp only: X) simp
  qed
  show ?thesis
    unfolding round_double_def Let_def X fl
    unfolding s_def [symmetric] k
    using small same by simp
qed

lemma round_double_int: "\<bar>j\<bar> < 2 ^ 53 \<Longrightarrow> round_double (of_int j) = Finite (of_int j)"
  using round_double_exact [of j 0 0] by simp

text \<open>The value of \<open>round_double\<close> at a magnitude of \<open>b\<close> binary digits.\<close>

lemma round_double_at:
  assumes "2 ^ (b - 1) \<le> \<bar>x\<bar> * 2 ^ 1074" and "\<bar>x\<bar> * 2 ^ 1074 < 2 ^ b" and "0 < b"
    and "s = b - 53" and "round_half_even (\<bar>x\<bar> * 2 ^ 1074 / 2 ^ s) = m"
    and "m * 2 ^ s < 2 ^ 2098"
  shows "round_double x = Finite (sgn x * of_int (m * 2 ^ s) / 2 ^ 1074)"
proof -
  have bits: "floorlog 2 (nat \<lfloor>\<bar>x\<bar> * 2 ^ 1074\<rfloor>) - 53 = s"
    by (simp only: floorlog_floor [OF assms(1) assms(2) assms(3)] assms(4))
  have small: "\<not> 2 ^ 2098 \<le> m * 2 ^ s"
    using assms(6) by (simp only: not_le)
  show ?thesis
    unfolding round_double_def Let_def bits assms(5)
    by (simp only: small if_False)
qed

text \<open>\<open>2 ^ 53 + 1\<close> lies halfway between two \<open>double\<close> values and goes to the even one.\<close>

lemma round_2_53_plus_1: "round_double (2 ^ 53 + 1) = Finite (2 ^ 53)"
proof -
  have X: "\<bar>2 ^ 53 + 1 :: real\<bar> = 2 ^ 53 + 1" by simp
  have lo: "(2::real) ^ (1128 - 1) \<le> \<bar>2 ^ 53 + 1\<bar> * 2 ^ 1074"
  proof -
    have "(2::real) ^ (1128 - 1) = 2 ^ 53 * 2 ^ 1074" by (simp flip: power_add)
    also have "\<dots> \<le> (2 ^ 53 + 1) * 2 ^ 1074" by (intro mult_right_mono) simp_all
    finally show ?thesis by (simp only: X)
  qed
  have hi: "\<bar>2 ^ 53 + 1\<bar> * 2 ^ 1074 < (2::real) ^ 1128"
  proof -
    have "(2 ^ 53 + 1) * 2 ^ 1074 < (2 ^ 54 :: real) * 2 ^ 1074"
      by (intro mult_strict_right_mono) simp_all
    also have "\<dots> = 2 ^ 1128" by (simp flip: power_add)
    finally show ?thesis by (simp only: X)
  qed
  have q: "\<bar>2 ^ 53 + 1\<bar> * 2 ^ 1074 / 2 ^ 1075 = (2 ^ 52 + 1 / 2 :: real)"
  proof -
    have "(2::real) ^ 1075 = 2 * 2 ^ 1074" by simp
    then show ?thesis by (simp add: field_simps)
  qed
  have m: "round_half_even (\<bar>2 ^ 53 + 1\<bar> * 2 ^ 1074 / 2 ^ 1075) = 2 ^ 52"
    unfolding q by (simp add: round_half_even_def)
  have k: "(2::int) ^ 52 * 2 ^ 1075 = 2 ^ 1127" by (simp flip: power_add)
  have small: "(2::int) ^ 52 * 2 ^ 1075 < 2 ^ 2098" unfolding k by simp
  have val: "sgn (2 ^ 53 + 1 :: real) * real_of_int (2 ^ 52 * 2 ^ 1075) / 2 ^ 1074 = 2 ^ 53"
  proof -
    have "(2::real) ^ 1127 = 2 ^ 53 * 2 ^ 1074" by (simp flip: power_add)
    then show ?thesis unfolding k by simp
  qed
  have "round_double (2 ^ 53 + 1)
      = Finite (sgn (2 ^ 53 + 1) * real_of_int (2 ^ 52 * 2 ^ 1075) / 2 ^ 1074)"
    by (rule round_double_at [OF lo hi _ _ m small]) simp_all
  then show ?thesis by (simp only: val)
qed

text \<open>So does \<open>2 ^ 54 - 1\<close>, whose even neighbour is \<open>2 ^ 54\<close>.\<close>

lemma round_2_54_minus_1: "round_double (2 ^ 54 - 1) = Finite (2 ^ 54)"
proof -
  have X: "\<bar>2 ^ 54 - 1 :: real\<bar> = 2 ^ 54 - 1" by simp
  have lo: "(2::real) ^ (1128 - 1) \<le> \<bar>2 ^ 54 - 1\<bar> * 2 ^ 1074"
  proof -
    have "(2::real) ^ (1128 - 1) = 2 ^ 53 * 2 ^ 1074" by (simp flip: power_add)
    also have "\<dots> \<le> (2 ^ 54 - 1) * 2 ^ 1074" by (intro mult_right_mono) simp_all
    finally show ?thesis by (simp only: X)
  qed
  have hi: "\<bar>2 ^ 54 - 1\<bar> * 2 ^ 1074 < (2::real) ^ 1128"
  proof -
    have "(2 ^ 54 - 1) * 2 ^ 1074 < (2 ^ 54 :: real) * 2 ^ 1074"
      by (intro mult_strict_right_mono) simp_all
    also have "\<dots> = 2 ^ 1128" by (simp flip: power_add)
    finally show ?thesis by (simp only: X)
  qed
  have q: "\<bar>2 ^ 54 - 1\<bar> * 2 ^ 1074 / 2 ^ 1075 = (2 ^ 53 - 1 / 2 :: real)"
  proof -
    have "(2::real) ^ 1075 = 2 * 2 ^ 1074" by simp
    then show ?thesis by (simp add: field_simps)
  qed
  have fl: "\<lfloor>2 ^ 53 - 1 / 2 :: real\<rfloor> = 2 ^ 53 - 1"
    by (simp add: floor_eq_iff)
  have m: "round_half_even (\<bar>2 ^ 54 - 1\<bar> * 2 ^ 1074 / 2 ^ 1075) = 2 ^ 53"
    unfolding q by (simp add: round_half_even_def fl Let_def)
  have k: "(2::int) ^ 53 * 2 ^ 1075 = 2 ^ 1128" by (simp flip: power_add)
  have small: "(2::int) ^ 53 * 2 ^ 1075 < 2 ^ 2098" unfolding k by simp
  have val: "sgn (2 ^ 54 - 1 :: real) * real_of_int (2 ^ 53 * 2 ^ 1075) / 2 ^ 1074 = 2 ^ 54"
  proof -
    have "(2::real) ^ 1128 = 2 ^ 54 * 2 ^ 1074" by (simp flip: power_add)
    then show ?thesis unfolding k by simp
  qed
  have "round_double (2 ^ 54 - 1)
      = Finite (sgn (2 ^ 54 - 1) * real_of_int (2 ^ 53 * 2 ^ 1075) / 2 ^ 1074)"
    by (rule round_double_at [OF lo hi _ _ m small]) simp_all
  then show ?thesis by (simp only: val)
qed

lemma double_plus_one: "Finite b + 1 = round_double (b + 1)"
  by (simp add: plus_double_def one_double_def)

lemma double_minus_one: "Finite b - 1 = round_double (b - 1)"
  by (simp add: minus_double_def one_double_def)

lemma double_le_one: "Finite b \<le> 1 \<longleftrightarrow> b \<le> 1"
  by (simp add: less_eq_double_def one_double_def)

lemma sample_arithmetic:
  "Finite 10 + Finite 5 = Finite 15"
  "Finite 10 + 1 = Finite 11"
  "Finite 11 + Finite 5 = Finite 16"
  "Finite 10 - 1 = Finite 9"
  "Finite 9 + Finite 5 = Finite 14"
  "Finite 10 * Finite 256 = Finite 2560"
  "Finite 15 * Finite 256 = Finite 3840"
  using round_double_int [of 15] round_double_int [of 11] round_double_int [of 16]
    round_double_int [of 9] round_double_int [of 14] round_double_int [of 2560]
    round_double_int [of 3840]
  by (simp_all add: plus_double_def minus_double_def times_double_def one_double_def)

lemma sample_conversions:
  "double_to_int (Finite 2560) = Some 2560" "double_to_int (Finite 3840) = Some 3840"
  by (simp_all add: double_to_int_def)

section \<open>Basic facts\<close>

lemma calls_emit: "calls (emit e c) = calls c @ [(e, view_of c)]"
  by (simp add: emit_def)

lemma calls_seen_self: "calls_seen c c = []"
  by (simp add: calls_seen_def)


lemma calls_seen_append: "calls c1 = calls c @ xs \<Longrightarrow> calls_seen c c1 = xs"
  by (simp add: calls_seen_def)

section \<open>Transaction guard\<close>

lemma cancelTransaction_trade:
  assumes "mTransaction c = TRANS_TRADE" and "mTransactionHandler c = Some (TradeRef h)"
  shows "cancelTransaction c = Inr (emit (Trade_cancel h) (c\<lparr>mTransaction := TRANS_NONE\<rparr>))"
  using assms by (simp add: cancelTransaction_def)

lemma cancelTransaction_returns:
  assumes "tag_matches_getters c"
  shows "\<exists>c1. cancelTransaction c = Inr c1 \<and> mTransaction c1 = TRANS_NONE"
  using assms
  by (cases "mTransaction c")
     (auto simp: cancelTransaction_def tag_matches_getters_def emit_def Let_def)

lemma tag_none_getters: "mTransaction c = TRANS_NONE \<Longrightarrow> tag_matches_getters c"
  by (simp add: tag_matches_getters_def getTrading_def getBuySell_def)

lemma run_call_preserves:
  assumes "tag_matches_getters c" and "run_call x c = Inr c1"
  shows "tag_matches_getters c1"
proof (cases x)
  case (Call_setTrading t)
  show ?thesis
  proof (cases t)
    case None
    with Call_setTrading assms(2) have "mTransaction c1 = TRANS_NONE"
      by (auto simp: setTrading_def split: if_splits)
    then show ?thesis by (rule tag_none_getters)
  next
    case (Some a)
    with Call_setTrading assms(2) show ?thesis
      by (auto simp: setTrading_def tag_matches_getters_def split: sum.splits)
  qed
next
  case (Call_setBuySell t)
  show ?thesis
  proof (cases t)
    case None
    with Call_setBuySell assms(2) have "mTransaction c1 = TRANS_NONE"
      by (auto simp: setBuySell_def split: if_splits)
    then show ?thesis by (rule tag_none_getters)
  next
    case (Some a)
    with Call_setBuySell assms(2) show ?thesis
      by (auto simp: setBuySell_def tag_matches_getters_def split: sum.splits)
  qed
next
  case Call_cancelTransaction
  from cancelTransaction_returns [OF assms(1)] Call_cancelTransaction assms(2)
  have "mTransaction c1 = TRANS_NONE" by auto
  then show ?thesis by (rule tag_none_getters)
qed

lemma run_calls_preserves:
  "tag_matches_getters c \<Longrightarrow> run_calls xs c = Inr c1 \<Longrightarrow> tag_matches_getters c1"
proof (induction xs arbitrary: c)
  case Nil
  then show ?case by simp
next
  case (Cons x xs)
  from Cons.prems(2) obtain c2
    where step: "run_call x c = Inr c2" and rest: "run_calls xs c2 = Inr c1"
    by (auto split: sum.splits)
  from run_call_preserves [OF Cons.prems(1) step] have "tag_matches_getters c2" .
  from Cons.IH [OF this rest] show ?case .
qed

lemma constructed_getters: "tag_matches_getters (constructed loaded)"
  by (simp add: tag_none_getters constructed_def)

lemma trader_reached: "setTrading (Some 1) fresh_character = Inr trader"
  by (simp add: setTrading_def cancelTransaction_def trader_def fresh_character_def
        constructed_def)

text \<open>
  C1. A character is in a trade with handler \<open>h\<close>, and \<open>setBuySell\<close> is called with a
  non-null \<open>h2\<close>. The call returns, and the one call it has made is \<open>cancel()\<close> on \<open>h\<close>.
  When \<open>h\<close> was told to cancel, the tag was already \<open>TRANS_NONE\<close> and the handler field
  still held \<open>h\<close>: neither \<open>h2\<close> nor \<open>TRANS_BUYSELL\<close> had been stored, and a getter called
  from the handler would have answered null. In the state returned the handler field
  holds \<open>h2\<close> under tag \<open>TRANS_BUYSELL\<close>, \<open>getTrading\<close> answers null and \<open>getBuySell\<close>
  answers \<open>h2\<close>.
\<close>

theorem setBuySell_cancels_trade_first:
  assumes "mTransaction c = TRANS_TRADE" and "mTransactionHandler c = Some (TradeRef h)"
  shows "\<exists>c2. setBuySell (Some h2) c = Inr c2
           \<and> calls_seen c c2 =
               [(Trade_cancel h,
                 \<lparr>seen_transaction = TRANS_NONE, seen_handler = Some (TradeRef h),
                  seen_action = mAction c\<rparr>)]
           \<and> mTransactionHandler c2 = Some (BuySellRef h2)
           \<and> mTransaction c2 = TRANS_BUYSELL
           \<and> getTrading c2 = None
           \<and> getBuySell c2 = Some h2"
proof -
  let ?c1 = "emit (Trade_cancel h) (c\<lparr>mTransaction := TRANS_NONE\<rparr>)"
  let ?c2 = "?c1\<lparr>mTransactionHandler := Some (BuySellRef h2), mTransaction := TRANS_BUYSELL\<rparr>"
  have cancelled: "cancelTransaction c = Inr ?c1"
    by (rule cancelTransaction_trade [OF assms])
  have adopted: "setBuySell (Some h2) c = Inr ?c2"
    by (simp add: setBuySell_def cancelled)
  have told: "calls_seen c ?c2 =
               [(Trade_cancel h,
                 \<lparr>seen_transaction = TRANS_NONE, seen_handler = Some (TradeRef h),
                  seen_action = mAction c\<rparr>)]"
    using assms(2) by (simp add: calls_seen_def emit_def view_of_def)
  have no_trade: "getTrading ?c2 = None"
    by (simp add: getTrading_def)
  have shop: "getBuySell ?c2 = Some h2"
    by (simp add: getBuySell_def)
  from adopted told no_trade shop show ?thesis
    by simp
qed

theorem setBuySell_cancels_trade_first_witness:
  "setTrading (Some 1) fresh_character = Inr trader
   \<and> mTransaction trader = TRANS_TRADE
   \<and> mTransactionHandler trader = Some (TradeRef 1)
   \<and> map_sum id (calls_seen trader) (setBuySell (Some 2) trader)
       = Inr [(Trade_cancel 1,
               \<lparr>seen_transaction = TRANS_NONE, seen_handler = Some (TradeRef 1),
                seen_action = STAND\<rparr>)]
   \<and> map_sum id mTransactionHandler (setBuySell (Some 2) trader) = Inr (Some (BuySellRef 2))
   \<and> map_sum id getTrading (setBuySell (Some 2) trader) = Inr None
   \<and> map_sum id getBuySell (setBuySell (Some 2) trader) = Inr (Some 2)"
proof -
  have tag: "mTransaction trader = TRANS_TRADE"
    by (simp add: trader_def)
  have handler: "mTransactionHandler trader = Some (TradeRef 1)"
    by (simp add: trader_def)
  have action: "mAction trader = STAND"
    by (simp add: trader_def fresh_character_def constructed_def sample_loaded_def)
  from setBuySell_cancels_trade_first [OF tag handler, of 2] obtain c2
    where "setBuySell (Some 2) trader = Inr c2"
      and "calls_seen trader c2 =
               [(Trade_cancel 1,
                 \<lparr>seen_transaction = TRANS_NONE, seen_handler = Some (TradeRef 1),
                  seen_action = mAction trader\<rparr>)]"
      and "mTransactionHandler c2 = Some (BuySellRef 2)"
      and "getTrading c2 = None" and "getBuySell c2 = Some 2"
    by blast
  with tag handler action trader_reached show ?thesis
    by simp
qed

text \<open>
  C3, as the specification states it, fails: after \<open>setTrading(h)\<close> and
  \<open>cancelTransaction()\<close> on a newly constructed character the tag is \<open>TRANS_NONE\<close> and the
  handler field still holds \<open>h\<close>.
\<close>

theorem tag_matches_field_counterexample:
  "map_sum id mTransaction
     (run_calls [Call_setTrading (Some 1), Call_cancelTransaction] fresh_character)
     = Inr TRANS_NONE
   \<and> map_sum id mTransactionHandler
     (run_calls [Call_setTrading (Some 1), Call_cancelTransaction] fresh_character)
     = Inr (Some (TradeRef 1))
   \<and> map_sum id tag_matches_field
     (run_calls [Call_setTrading (Some 1), Call_cancelTransaction] fresh_character)
     = Inr False"
  by (simp add: fresh_character_def constructed_def setTrading_def cancelTransaction_def
        emit_def Let_def tag_matches_field_def)

text \<open>
  C3, amended. In every state reached from construction by a sequence of \<open>setTrading\<close>,
  \<open>setBuySell\<close> and \<open>cancelTransaction\<close> calls, each of which returned: under tag
  \<open>TRANS_NONE\<close> both \<open>getTrading\<close> and \<open>getBuySell\<close> answer null (the field may keep the
  address of the last handler); under \<open>TRANS_TRADE\<close> the field holds a non-null trade
  handler, under \<open>TRANS_BUYSELL\<close> a non-null shop handler.
\<close>

theorem tag_matches_getters_reachable:
  assumes "run_calls xs (constructed loaded) = Inr c"
  shows "tag_matches_getters c"
  using constructed_getters assms by (rule run_calls_preserves)

theorem tag_matches_getters_reachable_witness:
  "map_sum id tag_matches_getters
     (run_calls [Call_setTrading (Some 1), Call_cancelTransaction, Call_setBuySell (Some 2)]
        (constructed sample_loaded))
   = Inr True"
proof -
  obtain c where run:
    "run_calls [Call_setTrading (Some 1), Call_cancelTransaction, Call_setBuySell (Some 2)]
       (constructed sample_loaded) = Inr c"
    by (simp add: constructed_def setTrading_def setBuySell_def cancelTransaction_def emit_def
          Let_def)
  from tag_matches_getters_reachable [OF run] have "tag_matches_getters c" .
  with run show ?thesis by simp
qed

section \<open>Point economy\<close>

lemma useCharacterPoint_spends:
  assumes "isAttributeDirectlyModifiable env a" and "mAttributePoints c \<noteq> 0"
  shows "fst (useCharacterPoint env a c) = ATTRIBMOD_OK"
    and "mAttributePoints (snd (useCharacterPoint env a c)) = mAttributePoints c - 1"
    and "getAttributeBase (snd (useCharacterPoint env a c)) a = getAttributeBase c a + 1"
    and "new_calls c (snd (useCharacterPoint env a c)) =
          [AccountHandler_updateAttributes (mDatabaseID c) a (getAttributeBase c a + 1)
             (modifiers (mAttributes c a) (getAttributeBase c a + 1)),
           Being_updateDerivedAttributes a]"
  using assms
  by (simp_all add: useCharacterPoint_def Let_def setAttributePoints_def setAttribute_def
      attributeChanged_def updateDerivedAttributes_def getAttributeBase_def
      getModifiedAttribute_def emit_def new_calls_def calls_seen_def)


lemma useCorrectionPoint_refunds:
  assumes "isAttributeDirectlyModifiable env a" and "mCorrectionPoints c \<noteq> 0"
    and "\<not> getAttributeBase c a \<le> 1"
  shows "fst (useCorrectionPoint env a c) = ATTRIBMOD_OK"
    and "mCorrectionPoints (snd (useCorrectionPoint env a c)) = mCorrectionPoints c - 1"
    and "mAttributePoints (snd (useCorrectionPoint env a c)) = mAttributePoints c + 1"
    and "getAttributeBase (snd (useCorrectionPoint env a c)) a = getAttributeBase c a - 1"
    and "new_calls c (snd (useCorrectionPoint env a c)) =
          [AccountHandler_updateAttributes (mDatabaseID c) a (getAttributeBase c a - 1)
             (modifiers (mAttributes c a) (getAttributeBase c a - 1))]"
  using assms
  by (simp_all add: useCorrectionPoint_def Let_def setAttributePoints_def
      setCorrectionPoints_def setAttribute_def attributeChanged_def getAttributeBase_def
      getModifiedAttribute_def emit_def new_calls_def calls_seen_def)



lemma sample_modifiable:
  "isAttributeDirectlyModifiable sample_environment 1"
  "\<not> isAttributeDirectlyModifiable sample_environment 2"
  by (simp_all add: sample_environment_def)

lemma funded_points:
  "mAttributePoints funded_character = 3" "mCorrectionPoints funded_character = 2"
  "getAttributeBase funded_character 1 = Finite 10"
  by (simp_all add: funded_character_def fresh_character_def constructed_def
        sample_loaded_def getAttributeBase_def sample_attributes_def)

lemma weak_points:
  "mAttributePoints weak_character = 3" "mCorrectionPoints weak_character = 2"
  "getAttributeBase weak_character 1 = Finite 1"
  by (simp_all add: weak_character_def funded_character_def fresh_character_def
        constructed_def sample_loaded_def getAttributeBase_def)

lemma big_points:
  "mAttributePoints big_character = 3" "mCorrectionPoints big_character = 2"
  "getAttributeBase big_character 1 = Finite (2 ^ 53)"
  by (simp_all add: big_character_def funded_character_def fresh_character_def
        constructed_def sample_loaded_def getAttributeBase_def del: power_numeral)

lemma huge_points:
  "mAttributePoints huge_character = 3" "mCorrectionPoints huge_character = 2"
  "getAttributeBase huge_character 1 = Finite (2 ^ 54)"
  by (simp_all add: huge_character_def funded_character_def fresh_character_def
        constructed_def sample_loaded_def getAttributeBase_def del: power_numeral)

lemma fresh_points: "mAttributePoints fresh_character = 0"
  by (simp add: fresh_character_def constructed_def sample_loaded_def)

text \<open>
  C4, as the specification states it, fails where the base plus one is not a \<open>double\<close>
  value: on an attribute of base \<open>2 ^ 53\<close> \<open>useCharacterPoint\<close> returns \<open>ATTRIBMOD_OK\<close> and
  takes the point, and the base is \<open>2 ^ 53\<close> as before.
\<close>

theorem useCharacterPoint_base_counterexample:
  "isAttributeDirectlyModifiable sample_environment 1
   \<and> mAttributePoints big_character = 3
   \<and> getAttributeBase big_character 1 = Finite (2 ^ 53)
   \<and> fst (useCharacterPoint sample_environment 1 big_character) = ATTRIBMOD_OK
   \<and> mAttributePoints (snd (useCharacterPoint sample_environment 1 big_character)) = 2
   \<and> getAttributeBase (snd (useCharacterPoint sample_environment 1 big_character)) 1
       = Finite (2 ^ 53)"
proof -
  have p: "mAttributePoints big_character \<noteq> 0"
    by (simp add: big_points)
  have "getAttributeBase (snd (useCharacterPoint sample_environment 1 big_character)) 1
      = Finite (2 ^ 53) + 1"
    by (simp only: useCharacterPoint_spends(3) [OF sample_modifiable(1) p] big_points)
  also have "\<dots> = Finite (2 ^ 53)"
    by (simp only: double_plus_one round_2_53_plus_1)
  finally have unchanged:
    "getAttributeBase (snd (useCharacterPoint sample_environment 1 big_character)) 1
      = Finite (2 ^ 53)" .
  have spent: "mAttributePoints (snd (useCharacterPoint sample_environment 1 big_character)) = 2"
    by (simp add: useCharacterPoint_spends(2) [OF sample_modifiable(1) p] big_points)
  from sample_modifiable(1) big_points(1) big_points(3)
    useCharacterPoint_spends(1) [OF sample_modifiable(1) p] spent unchanged
  show ?thesis by (simp only: simp_thms)
qed

text \<open>
  C4, amended. \<open>useCharacterPoint\<close>: on an attribute that is not directly modifiable it
  returns \<open>ATTRIBMOD_INVALID_ATTRIBUTE\<close> and the state is unchanged (so are the point
  balance and the attribute); on a modifiable attribute with a point balance of zero it
  returns \<open>ATTRIBMOD_NO_POINTS_LEFT\<close>, again with the state unchanged; otherwise it
  returns \<open>ATTRIBMOD_OK\<close>, the point balance is one less (in 32-bit arithmetic), the new
  base is the sum of the old base and 1 in \<open>double\<close> arithmetic, and the last call made
  is \<open>updateDerivedAttributes\<close> for that attribute. The new base is the old one increased
  by exactly one whenever the old base \<open>b\<close> is finite and \<open>b + 1\<close> is a \<open>double\<close> value,
  that is of the form \<open>j * 2 ^ p / 2 ^ q\<close> with \<open>\<bar>j\<bar> < 2 ^ 53\<close>, \<open>p \<le> 971\<close> and
  \<open>q \<le> 1074\<close>.
\<close>

theorem useCharacterPoint_outcomes:
  "(\<not> isAttributeDirectlyModifiable env a \<longrightarrow>
      useCharacterPoint env a c = (ATTRIBMOD_INVALID_ATTRIBUTE, c))
   \<and> (isAttributeDirectlyModifiable env a \<and> mAttributePoints c = 0 \<longrightarrow>
      useCharacterPoint env a c = (ATTRIBMOD_NO_POINTS_LEFT, c))
   \<and> (isAttributeDirectlyModifiable env a \<and> mAttributePoints c \<noteq> 0 \<longrightarrow>
      fst (useCharacterPoint env a c) = ATTRIBMOD_OK
      \<and> mAttributePoints (snd (useCharacterPoint env a c)) = mAttributePoints c - 1
      \<and> getAttributeBase (snd (useCharacterPoint env a c)) a = getAttributeBase c a + 1
      \<and> last (new_calls c (snd (useCharacterPoint env a c))) = Being_updateDerivedAttributes a)
   \<and> (isAttributeDirectlyModifiable env a \<and> mAttributePoints c \<noteq> 0
        \<and> getAttributeBase c a = Finite b
        \<and> b + 1 = of_int j * 2 ^ p / 2 ^ q \<and> \<bar>j\<bar> < 2 ^ 53 \<and> p \<le> 971 \<and> q \<le> 1074 \<longrightarrow>
      getAttributeBase (snd (useCharacterPoint env a c)) a = Finite (b + 1))"
proof (intro conjI impI)
  assume "\<not> isAttributeDirectlyModifiable env a"
  then show "useCharacterPoint env a c = (ATTRIBMOD_INVALID_ATTRIBUTE, c)"
    by (simp add: useCharacterPoint_def)
next
  assume "isAttributeDirectlyModifiable env a \<and> mAttributePoints c = 0"
  then show "useCharacterPoint env a c = (ATTRIBMOD_NO_POINTS_LEFT, c)"
    by (simp add: useCharacterPoint_def)
next
  assume h: "isAttributeDirectlyModifiable env a \<and> mAttributePoints c \<noteq> 0"
  then have m: "isAttributeDirectlyModifiable env a" and p: "mAttributePoints c \<noteq> 0"
    by simp_all
  show "fst (useCharacterPoint env a c) = ATTRIBMOD_OK"
    by (rule useCharacterPoint_spends(1) [OF m p])
  show "mAttributePoints (snd (useCharacterPoint env a c)) = mAttributePoints c - 1"
    by (rule useCharacterPoint_spends(2) [OF m p])
  show "getAttributeBase (snd (useCharacterPoint env a c)) a = getAttributeBase c a + 1"
    by (rule useCharacterPoint_spends(3) [OF m p])
  show "last (new_calls c (snd (useCharacterPoint env a c))) = Being_updateDerivedAttributes a"
    by (simp add: useCharacterPoint_spends(4) [OF m p])
next
  assume h: "isAttributeDirectlyModifiable env a \<and> mAttributePoints c \<noteq> 0
        \<and> getAttributeBase c a = Finite b
        \<and> b + 1 = of_int j * 2 ^ p / 2 ^ q \<and> \<bar>j\<bar> < 2 ^ 53 \<and> p \<le> 971 \<and> q \<le> 1074"
  then have m: "isAttributeDirectlyModifiable env a" and pts: "mAttributePoints c \<noteq> 0"
    and fin: "getAttributeBase c a = Finite b"
    and form: "b + 1 = of_int j * 2 ^ p / 2 ^ q"
    and j: "\<bar>j\<bar> < 2 ^ 53" and p: "p \<le> 971" and q: "q \<le> 1074"
    by simp_all
  have "getAttributeBase (snd (useCharacterPoint env a c)) a = Finite b + 1"
    by (simp only: useCharacterPoint_spends(3) [OF m pts] fin)
  also have "\<dots> = round_double (of_int j * 2 ^ p / 2 ^ q)"
    by (simp only: double_plus_one form)
  also have "\<dots> = Finite (of_int j * 2 ^ p / 2 ^ q)"
    by (rule round_double_exact [OF j p q])
  finally show "getAttributeBase (snd (useCharacterPoint env a c)) a = Finite (b + 1)"
    by (simp only: form)
qed

theorem useCharacterPoint_outcomes_witness:
  "\<not> isAttributeDirectlyModifiable sample_environment 2
   \<and> useCharacterPoint sample_environment 2 funded_character
       = (ATTRIBMOD_INVALID_ATTRIBUTE, funded_character)
   \<and> isAttributeDirectlyModifiable sample_environment 1
   \<and> mAttributePoints fresh_character = 0
   \<and> useCharacterPoint sample_environment 1 fresh_character
       = (ATTRIBMOD_NO_POINTS_LEFT, fresh_character)
   \<and> mAttributePoints funded_character = 3
   \<and> getAttributeBase funded_character 1 = Finite 10
   \<and> fst (useCharacterPoint sample_environment 1 funded_character) = ATTRIBMOD_OK
   \<and> mAttributePoints (snd (useCharacterPoint sample_environment 1 funded_character)) = 2
   \<and> getAttributeBase (snd (useCharacterPoint sample_environment 1 funded_character)) 1
       = Finite 11
   \<and> last (new_calls funded_character
             (snd (useCharacterPoint sample_environment 1 funded_character)))
       = Being_updateDerivedAttributes 1"
proof -
  have pts: "mAttributePoints funded_character \<noteq> 0"
    by (simp add: funded_points)
  have form: "(10 :: real) + 1 = of_int 11 * 2 ^ 0 / 2 ^ 0" "\<bar>11 :: int\<bar> < 2 ^ 53"
    "(0 :: nat) \<le> 971" "(0 :: nat) \<le> 1074"
    by simp_all
  from useCharacterPoint_outcomes [of sample_environment 2 funded_character 10 11 0 0]
    sample_modifiable(2)
  have invalid: "useCharacterPoint sample_environment 2 funded_character
       = (ATTRIBMOD_INVALID_ATTRIBUTE, funded_character)"
    by blast
  from useCharacterPoint_outcomes [of sample_environment 1 fresh_character 10 11 0 0]
    sample_modifiable(1) fresh_points
  have none_left: "useCharacterPoint sample_environment 1 fresh_character
       = (ATTRIBMOD_NO_POINTS_LEFT, fresh_character)"
    by blast
  from useCharacterPoint_outcomes [of sample_environment 1 funded_character 10 11 0 0]
    sample_modifiable(1) pts funded_points(3) form
  have ok: "fst (useCharacterPoint sample_environment 1 funded_character) = ATTRIBMOD_OK"
    "mAttributePoints (snd (useCharacterPoint sample_environment 1 funded_character))
       = mAttributePoints funded_character - 1"
    "getAttributeBase (snd (useCharacterPoint sample_environment 1 funded_character)) 1
       = Finite (10 + 1)"
    "last (new_calls funded_character
             (snd (useCharacterPoint sample_environment 1 funded_character)))
       = Being_updateDerivedAttributes 1"
    by blast+
  have two: "mAttributePoints funded_character - 1 = 2"
    by (simp add: funded_points)
  from sample_modifiable fresh_points funded_points(1) funded_points(3) invalid none_left ok
  show ?thesis
    by (simp only: two simp_thms) simp
qed

text \<open>
  C5, as the specification states it, fails where the base minus one is not a \<open>double\<close>
  value: on an attribute of base \<open>2 ^ 54\<close> \<open>useCorrectionPoint\<close> returns \<open>ATTRIBMOD_OK\<close>,
  takes the correction point and refunds the attribute point, and the base is \<open>2 ^ 54\<close>
  as before.
\<close>

theorem useCorrectionPoint_base_counterexample:
  "isAttributeDirectlyModifiable sample_environment 1
   \<and> mCorrectionPoints huge_character = 2
   \<and> getAttributeBase huge_character 1 = Finite (2 ^ 54)
   \<and> fst (useCorrectionPoint sample_environment 1 huge_character) = ATTRIBMOD_OK
   \<and> mCorrectionPoints (snd (useCorrectionPoint sample_environment 1 huge_character)) = 1
   \<and> mAttributePoints (snd (useCorrectionPoint sample_environment 1 huge_character)) = 4
   \<and> getAttributeBase (snd (useCorrectionPoint sample_environment 1 huge_character)) 1
       = Finite (2 ^ 54)"
proof -
  have p: "mCorrectionPoints huge_character \<noteq> 0"
    by (simp add: huge_points)
  have b: "\<not> getAttributeBase huge_character 1 \<le> 1"
    by (simp add: huge_points double_le_one)
  have "getAttributeBase (snd (useCorrectionPoint sample_environment 1 huge_character)) 1
      = Finite (2 ^ 54) - 1"
    by (simp only: useCorrectionPoint_refunds(4) [OF sample_modifiable(1) p b] huge_points)
  also have "\<dots> = Finite (2 ^ 54)"
    by (simp only: double_minus_one round_2_54_minus_1)
  finally have unchanged:
    "getAttributeBase (snd (useCorrectionPoint sample_environment 1 huge_character)) 1
      = Finite (2 ^ 54)" .
  have spent: "mCorrectionPoints (snd (useCorrectionPoint sample_environment 1 huge_character)) = 1"
    by (simp add: useCorrectionPoint_refunds(2) [OF sample_modifiable(1) p b] huge_points)
  have refunded: "mAttributePoints (snd (useCorrectionPoint sample_environment 1 huge_character)) = 4"
    by (simp add: useCorrectionPoint_refunds(3) [OF sample_modifiable(1) p b] huge_points)
  from sample_modifiable(1) huge_points(2) huge_points(3)
    useCorrectionPoint_refunds(1) [OF sample_modifiable(1) p b] spent refunded unchanged
  show ?thesis by (simp only: simp_thms)
qed

text \<open>
  C5, amended. \<open>useCorrectionPoint\<close> on a directly modifiable attribute, with correction
  points left: when the base of the attribute is 1 or less it returns \<open>ATTRIBMOD_DENIED\<close>
  and the state is unchanged (so are both counters and the base); otherwise it returns
  \<open>ATTRIBMOD_OK\<close>, the correction points are one less and the attribute points one more
  (in 32-bit arithmetic), and the new base is the difference of the old base and 1 in
  \<open>double\<close> arithmetic. The new base is the old one decreased by exactly one whenever the
  old base \<open>b\<close> is finite and \<open>b - 1\<close> is a \<open>double\<close> value, that is of the form
  \<open>j * 2 ^ p / 2 ^ q\<close> with \<open>\<bar>j\<bar> < 2 ^ 53\<close>, \<open>p \<le> 971\<close> and \<open>q \<le> 1074\<close>.
\<close>

theorem useCorrectionPoint_outcomes:
  assumes "isAttributeDirectlyModifiable env a" and "mCorrectionPoints c \<noteq> 0"
  shows "(getAttributeBase c a \<le> 1 \<longrightarrow> useCorrectionPoint env a c = (ATTRIBMOD_DENIED, c))
   \<and> (\<not> getAttributeBase c a \<le> 1 \<longrightarrow>
      fst (useCorrectionPoint env a c) = ATTRIBMOD_OK
      \<and> mCorrectionPoints (snd (useCorrectionPoint env a c)) = mCorrectionPoints c - 1
      \<and> mAttributePoints (snd (useCorrectionPoint env a c)) = mAttributePoints c + 1
      \<and> getAttributeBase (snd (useCorrectionPoint env a c)) a = getAttributeBase c a - 1)
   \<and> (getAttributeBase c a = Finite b \<and> 1 < b
        \<and> b - 1 = of_int j * 2 ^ p / 2 ^ q \<and> \<bar>j\<bar> < 2 ^ 53 \<and> p \<le> 971 \<and> q \<le> 1074 \<longrightarrow>
      fst (useCorrectionPoint env a c) = ATTRIBMOD_OK
      \<and> getAttributeBase (snd (useCorrectionPoint env a c)) a = Finite (b - 1))"
proof (intro conjI impI)
  assume "getAttributeBase c a \<le> 1"
  with assms show "useCorrectionPoint env a c = (ATTRIBMOD_DENIED, c)"
    by (simp add: useCorrectionPoint_def)
next
  assume b: "\<not> getAttributeBase c a \<le> 1"
  show "fst (useCorrectionPoint env a c) = ATTRIBMOD_OK"
    by (rule useCorrectionPoint_refunds(1) [OF assms b])
  show "mCorrectionPoints (snd (useCorrectionPoint env a c)) = mCorrectionPoints c - 1"
    by (rule useCorrectionPoint_refunds(2) [OF assms b])
  show "mAttributePoints (snd (useCorrectionPoint env a c)) = mAttributePoints c + 1"
    by (rule useCorrectionPoint_refunds(3) [OF assms b])
  show "getAttributeBase (snd (useCorrectionPoint env a c)) a = getAttributeBase c a - 1"
    by (rule useCorrectionPoint_refunds(4) [OF assms b])
next
  assume h: "getAttributeBase c a = Finite b \<and> 1 < b
        \<and> b - 1 = of_int j * 2 ^ p / 2 ^ q \<and> \<bar>j\<bar> < 2 ^ 53 \<and> p \<le> 971 \<and> q \<le> 1074"
  then have fin: "getAttributeBase c a = Finite b" and above: "1 < b"
    and form: "b - 1 = of_int j * 2 ^ p / 2 ^ q"
    and j: "\<bar>j\<bar> < 2 ^ 53" and p: "p \<le> 971" and q: "q \<le> 1074"
    by simp_all
  have guard: "\<not> getAttributeBase c a \<le> 1"
    using above by (simp add: fin double_le_one)
  show "fst (useCorrectionPoint env a c) = ATTRIBMOD_OK"
    by (rule useCorrectionPoint_refunds(1) [OF assms guard])
  have "getAttributeBase (snd (useCorrectionPoint env a c)) a = Finite b - 1"
    by (simp only: useCorrectionPoint_refunds(4) [OF assms guard] fin)
  also have "\<dots> = round_double (of_int j * 2 ^ p / 2 ^ q)"
    by (simp only: double_minus_one form)
  also have "\<dots> = Finite (of_int j * 2 ^ p / 2 ^ q)"
    by (rule round_double_exact [OF j p q])
  finally show "getAttributeBase (snd (useCorrectionPoint env a c)) a = Finite (b - 1)"
    by (simp only: form)
qed

theorem useCorrectionPoint_outcomes_witness:
  "isAttributeDirectlyModifiable sample_environment 1
   \<and> mCorrectionPoints weak_character = 2
   \<and> getAttributeBase weak_character 1 = Finite 1
   \<and> useCorrectionPoint sample_environment 1 weak_character = (ATTRIBMOD_DENIED, weak_character)
   \<and> mCorrectionPoints funded_character = 2
   \<and> mAttributePoints funded_character = 3
   \<and> getAttributeBase funded_character 1 = Finite 10
   \<and> fst (useCorrectionPoint sample_environment 1 funded_character) = ATTRIBMOD_OK
   \<and> mCorrectionPoints (snd (useCorrectionPoint sample_environment 1 funded_character)) = 1
   \<and> mAttributePoints (snd (useCorrectionPoint sample_environment 1 funded_character)) = 4
   \<and> getAttributeBase (snd (useCorrectionPoint sample_environment 1 funded_character)) 1
       = Finite 9"
proof -
  have weak: "mCorrectionPoints weak_character \<noteq> 0"
    by (simp add: weak_points)
  have funded: "mCorrectionPoints funded_character \<noteq> 0"
    by (simp add: funded_points)
  have low: "getAttributeBase weak_character 1 \<le> 1"
    by (simp add: weak_points double_le_one)
  have high: "\<not> getAttributeBase funded_character 1 \<le> 1"
    by (simp add: funded_points double_le_one)
  have form: "(1 :: real) < 10" "(10 :: real) - 1 = of_int 9 * 2 ^ 0 / 2 ^ 0"
    "\<bar>9 :: int\<bar> < 2 ^ 53" "(0 :: nat) \<le> 971" "(0 :: nat) \<le> 1074"
    by simp_all
  from useCorrectionPoint_outcomes [OF sample_modifiable(1) weak, of 10 9 0 0] low
  have denied: "useCorrectionPoint sample_environment 1 weak_character
      = (ATTRIBMOD_DENIED, weak_character)"
    by blast
  from useCorrectionPoint_outcomes [OF sample_modifiable(1) funded, of 10 9 0 0]
    high funded_points(3) form
  have ok: "fst (useCorrectionPoint sample_environment 1 funded_character) = ATTRIBMOD_OK"
    "mCorrectionPoints (snd (useCorrectionPoint sample_environment 1 funded_character))
       = mCorrectionPoints funded_character - 1"
    "mAttributePoints (snd (useCorrectionPoint sample_environment 1 funded_character))
       = mAttributePoints funded_character + 1"
    "getAttributeBase (snd (useCorrectionPoint sample_environment 1 funded_character)) 1
       = Finite (10 - 1)"
    by blast+
  have counters: "mCorrectionPoints funded_character - 1 = 1"
    "mAttributePoints funded_character + 1 = 4"
    by (simp_all add: funded_points)
  from sample_modifiable(1) weak_points(2) weak_points(3) funded_points denied ok
  show ?thesis
    by (simp only: counters simp_thms) simp
qed



section \<open>Respawn\<close>

lemma respawn_alive:
  "getAction c \<noteq> DEAD \<Longrightarrow>
   respawn env c = emit (LOG_WARN ''tried to respawn without being dead'') c"
  by (simp add: respawn_def)

lemma respawn_script:
  "getAction c = DEAD \<Longrightarrow> mDeathAcceptedCallback env = Some f \<Longrightarrow>
   respawn env c = emit (Script_execute f) (setAction STAND c)"
  by (simp add: respawn_def executeCallback_def)

lemma respawn_fallback:
  "getAction c = DEAD \<Longrightarrow> mDeathAcceptedCallback env = None \<Longrightarrow>
   respawn env c =
     emit (GameState_enqueueWarp
             (Configuration_getValue (configuration env) ''char_respawnMap'' 1)
             (Configuration_getValue (configuration env) ''char_respawnX'' 1024)
             (Configuration_getValue (configuration env) ''char_respawnY'' 1024))
       (setAttribute (ATTR_HP env) (getModifiedAttribute c (ATTR_MAX_HP env))
          (setAction STAND c))"
  by (simp add: respawn_def executeCallback_def Let_def getModifiedAttribute_def setAction_def)

lemma respawn_dead_stands: "getAction c = DEAD \<Longrightarrow> getAction (respawn env c) = STAND"
  by (cases "mDeathAcceptedCallback env")
     (simp_all add: respawn_fallback respawn_script emit_def setAttribute_def
        attributeChanged_def setAction_def getAction_def Let_def)

lemma respawn_alive_frame:
  assumes "getAction c \<noteq> DEAD"
  shows "mAttributes (respawn env c) = mAttributes c"
    and "getAction (respawn env c) = getAction c"
    and "new_calls c (respawn env c) = [LOG_WARN ''tried to respawn without being dead'']"
  by (simp_all add: respawn_alive [OF assms] emit_def getAction_def new_calls_def
        calls_seen_def)

lemma respawn_script_calls:
  assumes "getAction c = DEAD" and "mDeathAcceptedCallback env = Some f"
  shows "calls_seen c (respawn env c) = [(Script_execute f, (view_of c)\<lparr>seen_action := STAND\<rparr>)]"
    and "mAttributes (respawn env c) = mAttributes c"
  by (simp_all add: respawn_script [OF assms] emit_def setAction_def calls_seen_def
        view_of_def)

lemma respawn_fallback_calls:
  assumes "getAction c = DEAD" and "mDeathAcceptedCallback env = None"
  shows "calls_seen c (respawn env c) =
      [(AccountHandler_updateAttributes (mDatabaseID c) (ATTR_HP env)
          (getModifiedAttribute c (ATTR_MAX_HP env))
          (modifiers (mAttributes c (ATTR_HP env)) (getModifiedAttribute c (ATTR_MAX_HP env))),
        (view_of c)\<lparr>seen_action := STAND\<rparr>),
       (GameState_enqueueWarp
          (Configuration_getValue (configuration env) ''char_respawnMap'' 1)
          (Configuration_getValue (configuration env) ''char_respawnX'' 1024)
          (Configuration_getValue (configuration env) ''char_respawnY'' 1024),
        (view_of c)\<lparr>seen_action := STAND\<rparr>)]"
    and "getAttributeBase (respawn env c) (ATTR_HP env)
      = getModifiedAttribute c (ATTR_MAX_HP env)"
  by (simp_all add: respawn_fallback [OF assms] emit_def setAction_def setAttribute_def
        attributeChanged_def getAttributeBase_def getModifiedAttribute_def calls_seen_def
        view_of_def Let_def)

text \<open>
  C6. \<open>respawn\<close> on a character that is not dead logs a warning and does nothing else: the
  state is the old one with the warning recorded, so the attributes and the action state
  are unchanged and no warp is queued. On a dead character the action state is
  \<open>STAND\<close> afterwards, and it is restored first: every call \<open>respawn\<close> makes finds the
  character standing. With a death-accepted callback registered the one call is the run
  of the script, and the attributes are left alone. With no callback registered there
  are two calls: the account update that \<open>setAttribute\<close> raises for HP, whose base becomes
  the modified value of the max-HP attribute, and then the request to warp the entity to
  the configured map and point, each value being the configured one or its default; with
  none of the three keys configured the warp goes to map 1, x = 1024, y = 1024.
\<close>

theorem respawn_outcomes:
  "(getAction c \<noteq> DEAD \<longrightarrow>
      respawn env c = emit (LOG_WARN ''tried to respawn without being dead'') c
      \<and> mAttributes (respawn env c) = mAttributes c
      \<and> getAction (respawn env c) = getAction c
      \<and> new_calls c (respawn env c) = [LOG_WARN ''tried to respawn without being dead''])
   \<and> (getAction c = DEAD \<longrightarrow> getAction (respawn env c) = STAND)
   \<and> (getAction c = DEAD \<and> mDeathAcceptedCallback env = Some f \<longrightarrow>
      calls_seen c (respawn env c) = [(Script_execute f, (view_of c)\<lparr>seen_action := STAND\<rparr>)]
      \<and> mAttributes (respawn env c) = mAttributes c)
   \<and> (getAction c = DEAD \<and> mDeathAcceptedCallback env = None \<longrightarrow>
      getAttributeBase (respawn env c) (ATTR_HP env) = getModifiedAttribute c (ATTR_MAX_HP env)
      \<and> calls_seen c (respawn env c) =
          [(AccountHandler_updateAttributes (mDatabaseID c) (ATTR_HP env)
              (getModifiedAttribute c (ATTR_MAX_HP env))
              (modifiers (mAttributes c (ATTR_HP env))
                 (getModifiedAttribute c (ATTR_MAX_HP env))),
            (view_of c)\<lparr>seen_action := STAND\<rparr>),
           (GameState_enqueueWarp
              (Configuration_getValue (configuration env) ''char_respawnMap'' 1)
              (Configuration_getValue (configuration env) ''char_respawnX'' 1024)
              (Configuration_getValue (configuration env) ''char_respawnY'' 1024),
            (view_of c)\<lparr>seen_action := STAND\<rparr>)])
   \<and> (getAction c = DEAD \<and> mDeathAcceptedCallback env = None
        \<and> configuration env ''char_respawnMap'' = None
        \<and> configuration env ''char_respawnX'' = None
        \<and> configuration env ''char_respawnY'' = None \<longrightarrow>
      last (new_calls c (respawn env c)) = GameState_enqueueWarp 1 1024 1024)"
proof (intro conjI impI)
  assume alive: "getAction c \<noteq> DEAD"
  show "respawn env c = emit (LOG_WARN ''tried to respawn without being dead'') c"
    by (rule respawn_alive [OF alive])
  show "mAttributes (respawn env c) = mAttributes c"
    by (rule respawn_alive_frame(1) [OF alive])
  show "getAction (respawn env c) = getAction c"
    by (rule respawn_alive_frame(2) [OF alive])
  show "new_calls c (respawn env c) = [LOG_WARN ''tried to respawn without being dead'']"
    by (rule respawn_alive_frame(3) [OF alive])
next
  assume "getAction c = DEAD"
  then show "getAction (respawn env c) = STAND"
    by (rule respawn_dead_stands)
next
  assume h: "getAction c = DEAD \<and> mDeathAcceptedCallback env = Some f"
  then have d: "getAction c = DEAD" and cb: "mDeathAcceptedCallback env = Some f"
    by simp_all
  show "calls_seen c (respawn env c)
      = [(Script_execute f, (view_of c)\<lparr>seen_action := STAND\<rparr>)]"
    by (rule respawn_script_calls(1) [OF d cb])
  show "mAttributes (respawn env c) = mAttributes c"
    by (rule respawn_script_calls(2) [OF d cb])
next
  assume h: "getAction c = DEAD \<and> mDeathAcceptedCallback env = None"
  then have d: "getAction c = DEAD" and cb: "mDeathAcceptedCallback env = None"
    by simp_all
  show "getAttributeBase (respawn env c) (ATTR_HP env)
      = getModifiedAttribute c (ATTR_MAX_HP env)"
    by (rule respawn_fallback_calls(2) [OF d cb])
  show "calls_seen c (respawn env c) =
          [(AccountHandler_updateAttributes (mDatabaseID c) (ATTR_HP env)
              (getModifiedAttribute c (ATTR_MAX_HP env))
              (modifiers (mAttributes c (ATTR_HP env))
                 (getModifiedAttribute c (ATTR_MAX_HP env))),
            (view_of c)\<lparr>seen_action := STAND\<rparr>),
           (GameState_enqueueWarp
              (Configuration_getValue (configuration env) ''char_respawnMap'' 1)
              (Configuration_getValue (configuration env) ''char_respawnX'' 1024)
              (Configuration_getValue (configuration env) ''char_respawnY'' 1024),
            (view_of c)\<lparr>seen_action := STAND\<rparr>)]"
    by (rule respawn_fallback_calls(1) [OF d cb])
next
  assume h: "getAction c = DEAD \<and> mDeathAcceptedCallback env = None
        \<and> configuration env ''char_respawnMap'' = None
        \<and> configuration env ''char_respawnX'' = None
        \<and> configuration env ''char_respawnY'' = None"
  then have d: "getAction c = DEAD" and cb: "mDeathAcceptedCallback env = None"
    by simp_all
  from h show "last (new_calls c (respawn env c)) = GameState_enqueueWarp 1 1024 1024"
    by (simp add: new_calls_def respawn_fallback_calls(1) [OF d cb] Configuration_getValue_def)
qed

theorem respawn_outcomes_witness:
  "getAction trader \<noteq> DEAD
   \<and> new_calls trader (respawn sample_environment trader)
       = [LOG_WARN ''tried to respawn without being dead'']
   \<and> mAttributes (respawn sample_environment trader) = mAttributes trader
   \<and> getAction (respawn sample_environment trader) = getAction trader
   \<and> getAction dead_trader = DEAD
   \<and> getAction (respawn sample_environment dead_trader) = STAND
   \<and> calls_seen dead_trader
       (respawn (sample_environment\<lparr>mDeathAcceptedCallback := Some 5\<rparr>) dead_trader)
       = [(Script_execute 5,
           \<lparr>seen_transaction = TRANS_TRADE, seen_handler = Some (TradeRef 1),
            seen_action = STAND\<rparr>)]
   \<and> mDeathAcceptedCallback sample_environment = None
   \<and> getModifiedAttribute dead_trader (ATTR_MAX_HP sample_environment) = Finite 15
   \<and> getAttributeBase (respawn sample_environment dead_trader) (ATTR_HP sample_environment)
       = Finite 15
   \<and> map snd (calls_seen dead_trader (respawn sample_environment dead_trader))
       = [\<lparr>seen_transaction = TRANS_TRADE, seen_handler = Some (TradeRef 1),
           seen_action = STAND\<rparr>,
          \<lparr>seen_transaction = TRANS_TRADE, seen_handler = Some (TradeRef 1),
           seen_action = STAND\<rparr>]
   \<and> last (new_calls dead_trader (respawn sample_environment dead_trader))
       = GameState_enqueueWarp 1 1024 1024
   \<and> last (calls_seen dead_trader
        (respawn (sample_environment\<lparr>configuration := [''char_respawnX'' \<mapsto> 64]\<rparr>)
           dead_trader))
       = (GameState_enqueueWarp 1 64 1024,
          \<lparr>seen_transaction = TRANS_TRADE, seen_handler = Some (TradeRef 1),
           seen_action = STAND\<rparr>)"
proof -
  let ?scripted = "sample_environment\<lparr>mDeathAcceptedCallback := Some 5\<rparr>"
  let ?configured = "sample_environment\<lparr>configuration := [''char_respawnX'' \<mapsto> 64]\<rparr>"
  have alive: "getAction trader \<noteq> DEAD"
    by (simp add: getAction_def trader_def fresh_character_def constructed_def
          sample_loaded_def)
  have dead: "getAction dead_trader = DEAD"
    by (simp add: getAction_def dead_trader_def)
  have no_callback: "mDeathAcceptedCallback sample_environment = None"
    "mDeathAcceptedCallback ?configured = None"
    by (simp_all add: sample_environment_def)
  have callback: "mDeathAcceptedCallback ?scripted = Some 5"
    by simp
  have no_keys: "configuration sample_environment ''char_respawnMap'' = None"
    "configuration sample_environment ''char_respawnX'' = None"
    "configuration sample_environment ''char_respawnY'' = None"
    by (simp_all add: sample_environment_def)
  have max_hp: "getModifiedAttribute dead_trader (ATTR_MAX_HP sample_environment) = Finite 15"
    by (simp add: getModifiedAttribute_def dead_trader_def trader_def fresh_character_def
          constructed_def sample_loaded_def sample_attributes_def sample_arithmetic)
  have seen: "(view_of dead_trader)\<lparr>seen_action := STAND\<rparr>
      = \<lparr>seen_transaction = TRANS_TRADE, seen_handler = Some (TradeRef 1),
         seen_action = STAND\<rparr>"
    by (simp add: view_of_def dead_trader_def trader_def)
  have keys: "Configuration_getValue (configuration ?configured) ''char_respawnMap'' 1 = 1"
    "Configuration_getValue (configuration ?configured) ''char_respawnX'' 1024 = 64"
    "Configuration_getValue (configuration ?configured) ''char_respawnY'' 1024 = 1024"
    by (simp_all add: Configuration_getValue_def sample_environment_def)
  from respawn_outcomes [of trader sample_environment 5] alive
  have p1: "new_calls trader (respawn sample_environment trader)
        = [LOG_WARN ''tried to respawn without being dead'']"
    "mAttributes (respawn sample_environment trader) = mAttributes trader"
    "getAction (respawn sample_environment trader) = getAction trader"
    by blast+
  from respawn_outcomes [of dead_trader sample_environment 5] dead no_callback(1) no_keys
  have p2: "getAction (respawn sample_environment dead_trader) = STAND"
    "getAttributeBase (respawn sample_environment dead_trader) (ATTR_HP sample_environment)
       = getModifiedAttribute dead_trader (ATTR_MAX_HP sample_environment)"
    "last (new_calls dead_trader (respawn sample_environment dead_trader))
       = GameState_enqueueWarp 1 1024 1024"
    "calls_seen dead_trader (respawn sample_environment dead_trader) =
          [(AccountHandler_updateAttributes (mDatabaseID dead_trader)
              (ATTR_HP sample_environment)
              (getModifiedAttribute dead_trader (ATTR_MAX_HP sample_environment))
              (modifiers (mAttributes dead_trader (ATTR_HP sample_environment))
                 (getModifiedAttribute dead_trader (ATTR_MAX_HP sample_environment))),
            (view_of dead_trader)\<lparr>seen_action := STAND\<rparr>),
           (GameState_enqueueWarp
              (Configuration_getValue (configuration sample_environment) ''char_respawnMap'' 1)
              (Configuration_getValue (configuration sample_environment) ''char_respawnX'' 1024)
              (Configuration_getValue (configuration sample_environment) ''char_respawnY'' 1024),
            (view_of dead_trader)\<lparr>seen_action := STAND\<rparr>)]"
    by blast+
  from respawn_outcomes [of dead_trader ?scripted 5] dead callback
  have p3: "calls_seen dead_trader (respawn ?scripted dead_trader)
      = [(Script_execute 5, (view_of dead_trader)\<lparr>seen_action := STAND\<rparr>)]"
    by blast
  from respawn_outcomes [of dead_trader ?configured 5] dead no_callback(2)
  have p4: "calls_seen dead_trader (respawn ?configured dead_trader) =
          [(AccountHandler_updateAttributes (mDatabaseID dead_trader)
              (ATTR_HP ?configured)
              (getModifiedAttribute dead_trader (ATTR_MAX_HP ?configured))
              (modifiers (mAttributes dead_trader (ATTR_HP ?configured))
                 (getModifiedAttribute dead_trader (ATTR_MAX_HP ?configured))),
            (view_of dead_trader)\<lparr>seen_action := STAND\<rparr>),
           (GameState_enqueueWarp
              (Configuration_getValue (configuration ?configured) ''char_respawnMap'' 1)
              (Configuration_getValue (configuration ?configured) ''char_respawnX'' 1024)
              (Configuration_getValue (configuration ?configured) ''char_respawnY'' 1024),
            (view_of dead_trader)\<lparr>seen_action := STAND\<rparr>)]"
    by blast
  have views: "map snd (calls_seen dead_trader (respawn sample_environment dead_trader))
       = [\<lparr>seen_transaction = TRANS_TRADE, seen_handler = Some (TradeRef 1),
           seen_action = STAND\<rparr>,
          \<lparr>seen_transaction = TRANS_TRADE, seen_handler = Some (TradeRef 1),
           seen_action = STAND\<rparr>]"
    by (simp only: p2(4) seen list.map snd_conv)
  have warp: "last (calls_seen dead_trader (respawn ?configured dead_trader))
       = (GameState_enqueueWarp 1 64 1024,
          \<lparr>seen_transaction = TRANS_TRADE, seen_handler = Some (TradeRef 1),
           seen_action = STAND\<rparr>)"
    by (simp only: p4 keys seen) simp
  have script: "calls_seen dead_trader (respawn ?scripted dead_trader)
       = [(Script_execute 5,
           \<lparr>seen_transaction = TRANS_TRADE, seen_handler = Some (TradeRef 1),
            seen_action = STAND\<rparr>)]"
    by (simp only: p3 seen)
  have hp: "getAttributeBase (respawn sample_environment dead_trader)
       (ATTR_HP sample_environment) = Finite 15"
    by (simp only: p2(2) max_hp)
  from alive dead no_callback(1) max_hp p1 p2(1) p2(3) hp views warp script
  show ?thesis
    by (simp only: simp_thms)
qed

section \<open>Dirty attributes and the status message\<close>

lemma set_set_insert: "set (set_insert x xs) = insert x (set xs)"
  by (auto simp: set_insert_def set_insort_key)

lemma distinct_set_insert: "distinct xs \<Longrightarrow> distinct (set_insert x xs)"
  by (simp add: set_insert_def distinct_insort)

lemma sorted_set_insert: "sorted xs \<Longrightarrow> sorted (set_insert x xs)"
  by (simp add: set_insert_def sorted_insort)

lemma dirty_attributeChanged:
  "mModifiedAttributes (attributeChanged a c) = set_insert a (mModifiedAttributes c)"
  by (simp add: attributeChanged_def Let_def emit_def)

lemma attributes_attributesChanged:
  "mAttributes (attributesChanged as c) = mAttributes c"
  by (induction as arbitrary: c) (simp_all add: attributeChanged_def Let_def emit_def)

lemma dirty_attributesChanged:
  "set (mModifiedAttributes (attributesChanged as c)) = set (mModifiedAttributes c) \<union> set as"
  by (induction as arbitrary: c) (auto simp: dirty_attributeChanged set_set_insert)

lemma distinct_attributesChanged:
  "distinct (mModifiedAttributes c) \<Longrightarrow> distinct (mModifiedAttributes (attributesChanged as c))"
  by (induction as arbitrary: c) (auto simp: dirty_attributeChanged distinct_set_insert)

lemma sorted_attributesChanged:
  "sorted (mModifiedAttributes c) \<Longrightarrow> sorted (mModifiedAttributes (attributesChanged as c))"
  by (induction as arbitrary: c) (auto simp: dirty_attributeChanged sorted_set_insert)

lemma dirty_canonical:
  assumes "sorted (mModifiedAttributes c)" and "distinct (mModifiedAttributes c)"
  shows "mModifiedAttributes (attributesChanged as c) =
     sorted_list_of_set (set (mModifiedAttributes c) \<union> set as)"
proof -
  let ?d = "mModifiedAttributes (attributesChanged as c)"
  have "sorted ?d" and "distinct ?d"
    using assms by (simp_all add: sorted_attributesChanged distinct_attributesChanged)
  then have "sorted_list_of_set (set ?d) = ?d"
    by (rule sorted_list_of_set.idem_if_sorted_distinct)
  then show ?thesis by (simp add: dirty_attributesChanged)
qed

lemma count_list_distinct:
  "distinct xs \<Longrightarrow> count_list xs x = (if x \<in> set xs then 1 else 0)"
  by (induction xs) auto

lemma listed_ids_attribMsg: "listed_ids (attribMsg c xs) = map sint xs"
  by (induction xs) simp_all

lemma getLength_attribMsg: "getLength (attribMsg c xs) = 2 + 10 * length xs"
  by (induction xs) (simp_all add: getLength_def)

lemma sendStatus_calls:
  "new_calls c (sendStatus c) =
     (if mModifiedAttributes c = [] then []
      else [GameHandler_sendTo (attribMsg c (mModifiedAttributes c))])"
  by (simp add: sendStatus_def Let_def getLength_attribMsg new_calls_def calls_seen_def
        emit_def)

lemma sendStatus_clears: "mModifiedAttributes (sendStatus c) = []"
  by (simp add: sendStatus_def Let_def)

lemma distinct_map_sint: "distinct (xs :: 32 word list) \<Longrightarrow> distinct (map sint xs)"
  by (simp add: distinct_map inj_on_def signed_word_eqI)

text \<open>
  C7. The dirty set is a \<open>std::set\<close>: its elements are kept in ascending order without
  repetition. From such a set, after any run \<open>as\<close> of attribute-changed notifications the
  dirty ids are the old ones and the ids of \<open>as\<close>, in ascending order, which depends on the
  set of ids alone and not on the order or number of the notifications; each of them is
  there exactly once. \<open>sendStatus\<close> then sends one message, or none when no id is dirty;
  the message lists the dirty ids in that order, each exactly once, and the dirty set is
  empty afterwards.
\<close>

theorem dirty_ids_listed_once:
  assumes "sorted (mModifiedAttributes c)" and "distinct (mModifiedAttributes c)"
    and "c1 = attributesChanged as c"
  shows "mModifiedAttributes c1 = sorted_list_of_set (set (mModifiedAttributes c) \<union> set as)
   \<and> (\<forall>a. count_list (mModifiedAttributes c1) a
          = (if a \<in> set (mModifiedAttributes c) \<union> set as then 1 else 0))
   \<and> new_calls c1 (sendStatus c1)
       = (if mModifiedAttributes c1 = [] then []
          else [GameHandler_sendTo (attribMsg c1 (mModifiedAttributes c1))])
   \<and> listed_ids (attribMsg c1 (mModifiedAttributes c1)) = map sint (mModifiedAttributes c1)
   \<and> distinct (listed_ids (attribMsg c1 (mModifiedAttributes c1)))
   \<and> mModifiedAttributes (sendStatus c1) = []"
proof -
  have d: "distinct (mModifiedAttributes c1)"
    unfolding assms(3) by (rule distinct_attributesChanged [OF assms(2)])
  have elems: "set (mModifiedAttributes c1) = set (mModifiedAttributes c) \<union> set as"
    unfolding assms(3) by (rule dirty_attributesChanged)
  have order: "mModifiedAttributes c1
      = sorted_list_of_set (set (mModifiedAttributes c) \<union> set as)"
    unfolding assms(3) by (rule dirty_canonical [OF assms(1) assms(2)])
  have once: "\<forall>a. count_list (mModifiedAttributes c1) a
          = (if a \<in> set (mModifiedAttributes c) \<union> set as then 1 else 0)"
    using count_list_distinct [OF d] elems by simp
  have listed: "distinct (listed_ids (attribMsg c1 (mModifiedAttributes c1)))"
    by (simp only: listed_ids_attribMsg distinct_map_sint [OF d])
  from order once listed show ?thesis
    by (simp only: sendStatus_calls listed_ids_attribMsg sendStatus_clears simp_thms)
qed

theorem dirty_ids_listed_once_witness:
  "mModifiedAttributes fresh_character = [2, 13, 14]
   \<and> mModifiedAttributes (attributesChanged [5, 3, 5, 13, 3] fresh_character)
       = [2, 3, 5, 13, 14]
   \<and> listed_ids (attribMsg (attributesChanged [5, 3, 5, 13, 3] fresh_character)
        [2, 3, 5, 13, 14])
       = [2, 3, 5, 13, 14]
   \<and> new_calls (attributesChanged [5, 3, 5, 13, 3] fresh_character)
        (sendStatus (attributesChanged [5, 3, 5, 13, 3] fresh_character))
       = [GameHandler_sendTo
            [WriteInt16 2, WriteInt32 (Some 2560), WriteInt32 (Some 3840),
             WriteInt16 3, WriteInt32 (Some 2560), WriteInt32 (Some 3840),
             WriteInt16 5, WriteInt32 (Some 2560), WriteInt32 (Some 3840),
             WriteInt16 13, WriteInt32 (Some 2560), WriteInt32 (Some 3840),
             WriteInt16 14, WriteInt32 (Some 2560), WriteInt32 (Some 3840)]]
   \<and> mModifiedAttributes (sendStatus (attributesChanged [5, 3, 5, 13, 3] fresh_character)) = []"
proof -
  have start: "mModifiedAttributes fresh_character = [2, 13, 14]"
    by (simp add: fresh_character_def constructed_def sample_loaded_def)
  have s: "sorted (mModifiedAttributes fresh_character)"
    and d: "distinct (mModifiedAttributes fresh_character)"
    by (simp_all add: start)
  have dirty: "mModifiedAttributes (attributesChanged [5, 3, 5, 13, 3] fresh_character)
      = [2, 3, 5, 13, 14]"
    by (simp add: dirty_attributeChanged start set_insert_def)
  have attrs: "mAttributes (attributesChanged [5, 3, 5, 13, 3] fresh_character)
      = sample_attributes"
    unfolding attributes_attributesChanged
    by (simp add: fresh_character_def constructed_def sample_loaded_def)
  have msg: "attribMsg (attributesChanged [5, 3, 5, 13, 3] fresh_character) [2, 3, 5, 13, 14]
      = [WriteInt16 2, WriteInt32 (Some 2560), WriteInt32 (Some 3840),
         WriteInt16 3, WriteInt32 (Some 2560), WriteInt32 (Some 3840),
         WriteInt16 5, WriteInt32 (Some 2560), WriteInt32 (Some 3840),
         WriteInt16 13, WriteInt32 (Some 2560), WriteInt32 (Some 3840),
         WriteInt16 14, WriteInt32 (Some 2560), WriteInt32 (Some 3840)]"
    by (simp add: getAttributeBase_def getModifiedAttribute_def attrs sample_attributes_def
          sample_arithmetic sample_conversions del: attributesChanged.simps)
  from dirty_ids_listed_once [OF s d refl, of "[5, 3, 5, 13, 3]"] start dirty msg
  show ?thesis by simp
qed

section \<open>Permission manager\<close>

lemma permissions_addPermission:
  "permissions (addPermission p mk pm) =
     (permissions pm)(p \<mapsto> (case permissions pm p of None \<Rightarrow> mk | Some m \<Rightarrow> m OR mk))"
  by (simp add: addPermission_def split: option.splits)

lemma logged_addPermission: "logged (addPermission p mk pm) = logged pm"
  by (simp add: addPermission_def split: option.splits)

lemma permissions_fold_addPermission:
  "permissions (fold (\<lambda>p. addPermission p mk) ps pm) q =
     (if q \<in> set ps
      then Some (case permissions pm q of None \<Rightarrow> mk | Some m \<Rightarrow> m OR mk)
      else permissions pm q)"
proof (induction ps arbitrary: pm)
  case Nil
  then show ?case by simp
next
  case (Cons p ps)
  show ?case
    by (simp add: Cons.IH permissions_addPermission or.assoc split: option.splits)
qed

lemma logged_fold_addPermission: "logged (fold (\<lambda>p. addPermission p mk) ps pm) = logged pm"
  by (induction ps arbitrary: pm) (simp_all add: logged_addPermission)

lemma reload_perNode_readable:
  assumes "readable [n]"
  shows "reload_perNode mk n pm = Inr (fold (\<lambda>p. addPermission p mk) (allowed_names [n]) pm)"
  using assms
  by (cases "xmlChildrenNode n")
     (auto simp: reload_perNode_def first_child_content_def split: option.splits)

lemma reload_perNodes_readable:
  "readable ns \<Longrightarrow>
   reload_perNodes mk ns pm = Inr (fold (\<lambda>p. addPermission p mk) (allowed_names ns) pm)"
proof (induction ns arbitrary: pm)
  case Nil
  then show ?case by simp
next
  case (Cons n ns)
  from Cons.prems have r: "readable [n]" "readable ns"
    by simp_all
  have names: "allowed_names (n # ns) = allowed_names [n] @ allowed_names ns"
    by (auto split: list.splits option.splits)
  show ?case
    by (simp only: reload_perNodes.simps reload_perNode_readable [OF r(1)] sum.case
          Cons.IH [OF r(2)] names fold_append comp_def)
qed

lemma reload_node_skip:
  assumes "node_name node = ''class''"
    and "XML_getProperty node ''level'' 0 < 1 \<or> XML_getProperty node ''level'' 0 > 8"
  shows "reload_node node pm =
           Inr (log_line (IllegalClassLevel (XML_getProperty node ''level'' 0)) pm)"
  using assms by (auto simp: reload_node_def Let_def)

lemma reload_node_level:
  assumes "node_name node = ''class''" and "XML_getProperty node ''level'' 0 = L"
    and "1 \<le> L" and "L \<le> 8" and "readable (xmlChildrenNode node)"
  shows "reload_node node pm =
           Inr (fold (\<lambda>p. addPermission p (push_bit (nat (L - 1)) 1))
                  (allowed_names (xmlChildrenNode node)) pm)"
  using assms by (simp add: reload_node_def Let_def reload_perNodes_readable)

lemma single_bit:
  assumes "1 \<le> L" and "L \<le> 8"
  shows "bit (push_bit (nat (L - 1)) (1 :: 8 word)) k \<longleftrightarrow> k = nat (L - 1)"
proof -
  from assms have "nat (L - 1) < 8" by simp
  then show ?thesis
    by (auto simp: bit_exp_iff)
qed

text \<open>
  C8. \<open>checkPermission\<close> answers \<open>PMR_UNKNOWN\<close> for a name the table does not hold;
  for a name the table holds with mask \<open>m\<close> it answers \<open>PMR_ALLOWED\<close> when the account
  level and \<open>m\<close> have a bit in common, and \<open>PMR_DENIED\<close> when they have none. In the last
  two cases the manager is left as it was.
\<close>

theorem checkPermission_outcomes:
  "(permissions pm name = None \<longrightarrow> fst (checkPermission lvl name pm) = PMR_UNKNOWN)
   \<and> (permissions pm name = Some m \<and> lvl AND ucast m \<noteq> 0 \<longrightarrow>
        checkPermission lvl name pm = (PMR_ALLOWED, pm))
   \<and> (permissions pm name = Some m \<and> lvl AND ucast m = 0 \<longrightarrow>
        checkPermission lvl name pm = (PMR_DENIED, pm))"
  by (simp add: checkPermission_def)

theorem checkPermission_outcomes_witness:
  "permissions sample_manager ''ban'' = None
   \<and> fst (checkPermission 2 ''ban'' sample_manager) = PMR_UNKNOWN
   \<and> permissions sample_manager ''kick'' = Some 6
   \<and> (2 :: 32 word) AND ucast (6 :: 8 word) \<noteq> 0
   \<and> checkPermission 2 ''kick'' sample_manager = (PMR_ALLOWED, sample_manager)
   \<and> (1 :: 32 word) AND ucast (6 :: 8 word) = 0
   \<and> checkPermission 1 ''kick'' sample_manager = (PMR_DENIED, sample_manager)"
proof -
  have unknown: "permissions sample_manager ''ban'' = None"
    by (simp add: sample_manager_def)
  have known: "permissions sample_manager ''kick'' = Some 6"
    by (simp add: sample_manager_def)
  have common: "(2 :: 32 word) AND ucast (6 :: 8 word) \<noteq> 0"
    by simp
  have none: "(1 :: 32 word) AND ucast (6 :: 8 word) = 0"
    by simp
  from checkPermission_outcomes [of sample_manager "''ban''" 2 6]
    checkPermission_outcomes [of sample_manager "''kick''" 2 6]
    checkPermission_outcomes [of sample_manager "''kick''" 1 6]
    unknown known common none
  show ?thesis by blast
qed

text \<open>
  What the loops of \<open>reload\<close> do with a \<open>class\<close> declaration. One whose level is below 1
  or above 8 is logged and skipped: the table is as before, and the loop goes on with the
  remaining declarations. One of level \<open>L\<close> within 1..8, each of whose \<open>allow\<close>, \<open>deny\<close>
  and \<open>alias\<close> elements has a child node, is read without a fault and without a warning;
  the mask it contributes has bit \<open>L - 1\<close> set and no other, and afterwards each
  permission name it allows holds its former mask with that bit added (the bit alone
  where the name was new), all other names being as before.
\<close>

lemma reload_class_levels:
  "(node_name node = ''class''
      \<and> (XML_getProperty node ''level'' 0 < 1 \<or> XML_getProperty node ''level'' 0 > 8) \<longrightarrow>
      reload_node node pm =
        Inr (log_line (IllegalClassLevel (XML_getProperty node ''level'' 0)) pm)
      \<and> permissions (log_line (IllegalClassLevel (XML_getProperty node ''level'' 0)) pm)
          = permissions pm
      \<and> reload_nodes (node # rest) pm =
          reload_nodes rest (log_line (IllegalClassLevel (XML_getProperty node ''level'' 0)) pm))
   \<and> (node_name node = ''class'' \<and> XML_getProperty node ''level'' 0 = L
      \<and> 1 \<le> L \<and> L \<le> 8 \<and> readable (xmlChildrenNode node) \<longrightarrow>
      (\<forall>k. bit (push_bit (nat (L - 1)) (1 :: 8 word)) k \<longleftrightarrow> k = nat (L - 1))
      \<and> (\<exists>pm1. reload_node node pm = Inr pm1
            \<and> logged pm1 = logged pm
            \<and> (\<forall>p. permissions pm1 p =
                  (if p \<in> set (allowed_names (xmlChildrenNode node))
                   then Some (case permissions pm p of
                                None \<Rightarrow> push_bit (nat (L - 1)) 1
                              | Some m \<Rightarrow> m OR push_bit (nat (L - 1)) 1)
                   else permissions pm p))))"
proof (intro conjI impI)
  assume h: "node_name node = ''class''
      \<and> (XML_getProperty node ''level'' 0 < 1 \<or> XML_getProperty node ''level'' 0 > 8)"
  then have skip: "reload_node node pm =
        Inr (log_line (IllegalClassLevel (XML_getProperty node ''level'' 0)) pm)"
    by (simp add: reload_node_skip)
  show "reload_node node pm =
        Inr (log_line (IllegalClassLevel (XML_getProperty node ''level'' 0)) pm)"
    by (rule skip)
  show "permissions (log_line (IllegalClassLevel (XML_getProperty node ''level'' 0)) pm)
          = permissions pm"
    by (simp add: log_line_def)
  show "reload_nodes (node # rest) pm =
          reload_nodes rest (log_line (IllegalClassLevel (XML_getProperty node ''level'' 0)) pm)"
    by (simp add: skip)
next
  assume h: "node_name node = ''class'' \<and> XML_getProperty node ''level'' 0 = L
      \<and> 1 \<le> L \<and> L \<le> 8 \<and> readable (xmlChildrenNode node)"
  then have cls: "node_name node = ''class''" and lvl: "XML_getProperty node ''level'' 0 = L"
    and lo: "1 \<le> L" and hi: "L \<le> 8" and rd: "readable (xmlChildrenNode node)"
    by simp_all
  show "\<forall>k. bit (push_bit (nat (L - 1)) (1 :: 8 word)) k \<longleftrightarrow> k = nat (L - 1)"
    using single_bit [OF lo hi] by blast
  let ?pm1 = "fold (\<lambda>p. addPermission p (push_bit (nat (L - 1)) 1))
                  (allowed_names (xmlChildrenNode node)) pm"
  have "reload_node node pm = Inr ?pm1"
    by (rule reload_node_level [OF cls lvl lo hi rd])
  moreover have "logged ?pm1 = logged pm"
    by (rule logged_fold_addPermission)
  moreover have "\<forall>p. permissions ?pm1 p =
                  (if p \<in> set (allowed_names (xmlChildrenNode node))
                   then Some (case permissions pm p of
                                None \<Rightarrow> push_bit (nat (L - 1)) 1
                              | Some m \<Rightarrow> m OR push_bit (nat (L - 1)) 1)
                   else permissions pm p)"
    by (simp only: permissions_fold_addPermission simp_thms)
  ultimately show "\<exists>pm1. reload_node node pm = Inr pm1
            \<and> logged pm1 = logged pm
            \<and> (\<forall>p. permissions pm1 p =
                  (if p \<in> set (allowed_names (xmlChildrenNode node))
                   then Some (case permissions pm p of
                                None \<Rightarrow> push_bit (nat (L - 1)) 1
                              | Some m \<Rightarrow> m OR push_bit (nat (L - 1)) 1)
                   else permissions pm p))"
    by blast
qed

lemma reload_class_levels_sample:
  "map_sum id logged (reload sample_document sample_manager)
     = Inr [IllegalClassLevel 0, IllegalClassLevel 9]
   \<and> map_sum id (\<lambda>pm. permissions pm ''kick'') (reload sample_document sample_manager)
     = Inr (Some 6)
   \<and> map_sum id (\<lambda>pm. permissions pm ''ban'') (reload sample_document sample_manager)
     = Inr (Some 4)"
proof -
  let ?pm1 = "log_line (IllegalClassLevel 0) sample_manager"
  let ?pm2 = "log_line (IllegalClassLevel 9) ?pm1"
  have low: "node_name level0_class = ''class''"
    "XML_getProperty level0_class ''level'' 0 = 0"
    by (simp_all add: level0_class_def XML_getProperty_def)
  have high: "node_name level9_class = ''class''"
    "XML_getProperty level9_class ''level'' 0 = 9"
    by (simp_all add: level9_class_def XML_getProperty_def)
  have third: "node_name level3_class = ''class''"
    "XML_getProperty level3_class ''level'' 0 = 3"
    "readable (xmlChildrenNode level3_class)"
    by (simp_all add: level3_class_def XML_getProperty_def text_node_def)
  have names: "allowed_names (xmlChildrenNode level3_class) = [''ban'']"
    by (simp add: level3_class_def text_node_def)
  from reload_class_levels [of level0_class sample_manager "[level9_class, level3_class]" 0]
    low
  have step1: "reload_nodes [level0_class, level9_class, level3_class] sample_manager
      = reload_nodes [level9_class, level3_class] ?pm1"
    by simp
  from reload_class_levels [of level9_class ?pm1 "[level3_class]" 0] high
  have step2: "reload_nodes [level9_class, level3_class] ?pm1
      = reload_nodes [level3_class] ?pm2"
    by simp
  have range: "(1 :: int) \<le> 3" "(3 :: int) \<le> 8"
    by simp_all
  from reload_class_levels [of level3_class ?pm2 "[]" 3] third range
  obtain pm3 where step3: "reload_node level3_class ?pm2 = Inr pm3"
    and log3: "logged pm3 = logged ?pm2"
    and perm3: "\<forall>p. permissions pm3 p =
        (if p \<in> set (allowed_names (xmlChildrenNode level3_class))
         then Some (case permissions ?pm2 p of
                      None \<Rightarrow> push_bit (nat (3 - 1)) 1
                    | Some m \<Rightarrow> m OR push_bit (nat (3 - 1)) 1)
         else permissions ?pm2 p)"
    by blast
  have "reload sample_document sample_manager
      = reload_nodes [level0_class, level9_class, level3_class] sample_manager"
    by (simp add: reload_def sample_document_def)
  also have "\<dots> = reload_nodes [level3_class] ?pm2"
    by (simp only: step1 step2)
  also have "\<dots> = Inr pm3"
    by (simp add: step3)
  finally have run: "reload sample_document sample_manager = Inr pm3" .
  have "logged pm3 = [IllegalClassLevel 0, IllegalClassLevel 9]"
    by (simp add: log3 log_line_def sample_manager_def)
  moreover have "permissions pm3 ''kick'' = Some 6"
    by (simp add: perm3 names log_line_def sample_manager_def)
  moreover have "permissions pm3 ''ban'' = Some 4"
    by (simp add: perm3 names log_line_def sample_manager_def)
  ultimately show ?thesis
    by (simp add: run)
qed

text \<open>
  C9. The claim holds of the declarations above, and fails on a declaration of level 3
  whose first \<open>allow\<close> element is empty: the name \<open>kick\<close>, which its second \<open>allow\<close>
  element allows, should receive bit 2, but \<open>reload\<close> reads the content of the first
  element through its null child pointer (line 107) and faults before it adds anything.
\<close>

theorem reload_childless_allow_faults:
  "node_name childless_allow_class = ''class''
   \<and> XML_getProperty childless_allow_class ''level'' 0 = 3
   \<and> allowed_names (xmlChildrenNode childless_allow_class) = [''kick'']
   \<and> reload_node childless_allow_class sample_manager = Inl NullDereference
   \<and> reload childless_allow_document sample_manager = Inl NullDereference"
  by (simp add: childless_allow_class_def childless_allow_document_def text_node_def
        XML_getProperty_def reload_def reload_node_def reload_perNode_def
        first_child_content_def)

end
